theory Spec2Isabelle
  imports Complex_Main "HOL-Library.Sublist"
begin

section \<open>JavaScript values\<close>

text \<open>
  Request bodies, the tickets file and the state block of the language model are JSON.
  A parsed JSON value is a \<open>json\<close>; a property that may be absent (\<open>undefined\<close>) is a
  \<open>json option\<close>. A number is a double: \<open>JNum x\<close> is the finite double whose value is
  the rational \<open>x\<close>, and \<open>JInf\<close> is \<open>Infinity\<close> (\<open>True\<close>) or \<open>-Infinity\<close>, which
  \<open>JSON.parse\<close> gives for a literal beyond the range. The two zeros are one value here:
  both are falsy, equal under \<open>===\<close> and written as \<open>0\<close>. An object is the list of its
  members in the order in which its properties are enumerated. A string is the list of
  its UTF-16 code units, each one below 128 as one \<open>char\<close> and any other in the two or
  three bytes that UTF-8 gives it.
\<close>

datatype json =
    JNull
  | JBool bool
  | JNum rat
  | JInf bool
  | JStr string
  | JArr "json list"
  | JObj "(string \<times> json) list"

text \<open>Truthiness, as used by \<open>!x\<close>, \<open>if (x)\<close> and \<open>x || y\<close>.\<close>

fun truthy :: "json \<Rightarrow> bool" where
  "truthy JNull = False"
| "truthy (JBool b) = b"
| "truthy (JNum n) = (n \<noteq> 0)"
| "truthy (JInf s) = True"
| "truthy (JStr s) = (s \<noteq> [])"
| "truthy (JArr xs) = True"
| "truthy (JObj ms) = True"

fun truthy_opt :: "json option \<Rightarrow> bool" where
  "truthy_opt None = False"
| "truthy_opt (Some v) = truthy v"

text \<open>
  Strict equality \<open>a === b\<close> between two values that were parsed separately (one from the
  tickets file or the URL, the other from the request body): primitives compare by value,
  two arrays or objects are different references and never equal.
\<close>

fun strict_eq :: "json \<Rightarrow> json \<Rightarrow> bool" where
  "strict_eq JNull JNull = True"
| "strict_eq (JBool a) (JBool b) = (a = b)"
| "strict_eq (JNum a) (JNum b) = (a = b)"
| "strict_eq (JInf a) (JInf b) = (a = b)"
| "strict_eq (JStr a) (JStr b) = (a = b)"
| "strict_eq a b = False"

subsection \<open>Doubles\<close>

text \<open>
  The rounding of a rational to the nearest double, ties to even, as \<open>JSON.parse\<close> does
  it for the value of a number literal. \<open>exponent x\<close> is the largest \<open>k\<close> between \<open>-1022\<close>
  and \<open>1025\<close> with \<open>pow2 k \<le> x\<close>, and \<open>-1022\<close> below that range, where the doubles are
  spaced as at \<open>pow2 (-1022)\<close>; a double has 53 significant bits. A result of \<open>pow2 1024\<close>
  or more is beyond the largest double and becomes \<open>Infinity\<close>.
\<close>

definition pow2 :: "int \<Rightarrow> rat" where
  "pow2 k = (if 0 \<le> k then 2 ^ nat k else 1 / 2 ^ nat (- k))"

fun climb :: "rat \<Rightarrow> int \<Rightarrow> int list \<Rightarrow> int" where
  "climb x k [] = k"
| "climb x k (s # ss) = climb x (if pow2 (k + s) \<le> x then k + s else k) ss"

definition exponent :: "rat \<Rightarrow> int" where
  "exponent x = climb x (- 1022) [1024, 512, 256, 128, 64, 32, 16, 8, 4, 2, 1]"

definition round_even :: "rat \<Rightarrow> int" where
  "round_even q =
     (let f = \<lfloor>q\<rfloor>; r = q - of_int f
      in if r < 1 / 2 then f else if 1 / 2 < r then f + 1 else if even f then f else f + 1)"

definition nearest :: "rat \<Rightarrow> rat" where
  "nearest x = (let p = exponent x - 52 in of_int (round_even (x / pow2 p)) * pow2 p)"

definition to_double :: "rat \<Rightarrow> json" where
  "to_double x =
     (if x = 0 then JNum 0
      else let y = nearest \<bar>x\<bar>
           in if pow2 1024 \<le> y then JInf (0 < x) else JNum (if 0 < x then y else - y))"

definition is_double :: "rat \<Rightarrow> bool" where
  "is_double x = (to_double x = JNum x)"

subsection \<open>Values that JavaScript can hold\<close>






text \<open>
  \<open>JSON.parse (JSON.stringify v)\<close>, the way of a value through the tickets file or
  through the body of a response: \<open>Infinity\<close> and \<open>-Infinity\<close> are written as \<open>null\<close>,
  every other value comes back as it was.
\<close>

fun reread :: "json \<Rightarrow> json" where
  "reread (JInf s) = JNull"
| "reread (JArr xs) = JArr (map reread xs)"
| "reread (JObj ms) = JObj (map (map_prod id reread) ms)"
| "reread v = v"


subsection \<open>Arrays\<close>

text \<open>\<open>Array.prototype.find\<close>: the first element that satisfies the predicate.\<close>

fun find_first :: "('a \<Rightarrow> bool) \<Rightarrow> 'a list \<Rightarrow> 'a option" where
  "find_first P [] = None"
| "find_first P (x # xs) = (if P x then Some x else find_first P xs)"

text \<open>
  The element returned by \<open>find\<close> is a reference into the array, so assigning to its
  fields changes the array in place: \<open>update_first P f xs\<close> applies \<open>f\<close> to that element.
\<close>

fun update_first :: "('a \<Rightarrow> bool) \<Rightarrow> ('a \<Rightarrow> 'a) \<Rightarrow> 'a list \<Rightarrow> 'a list" where
  "update_first P f [] = []"
| "update_first P f (x # xs) = (if P x then f x # xs else x # update_first P f xs)"


section \<open>The conversation server: tickets in a JSON file\<close>

text \<open>
  An entry of \<open>tickets.json\<close>, as the server writes it. \<open>tid\<close> is the property \<open>id\<close>;
  the three data properties and \<open>updatedAt\<close> are absent until they are assigned.
\<close>

record file_entry =
  filename :: string
  originalName :: string
  path :: string
  url :: string
  ftype :: string
  fsize :: nat
  mimetype :: string
  uploadedAt :: string

record jticket =
  tid :: json
  createdAt :: string
  uploads :: "file_entry list"
  transcript :: "json option"
  extracted_data :: "json option"
  description :: "json option"
  updatedAt :: "string option"

text \<open>
  What the file system and the clock do during one request: whether \<open>readFileSync\<close> and
  \<open>writeFileSync\<close> on the data file succeed, whether \<open>renameSync\<close> and \<open>unlinkSync\<close>
  succeed on a given path, and \<open>new Date().toISOString()\<close>.
\<close>

record io =
  read_ok :: bool
  write_ok :: bool
  rename_ok :: "string \<Rightarrow> bool"
  unlink_ok :: "string \<Rightarrow> bool"
  now :: string

text \<open>A ticket as \<open>JSON.stringify\<close> writes it and \<open>JSON.parse\<close> reads it back.\<close>

definition reread_ticket :: "jticket \<Rightarrow> jticket" where
  "reread_ticket k =
     k\<lparr>tid := reread (tid k), transcript := map_option reread (transcript k),
       extracted_data := map_option reread (extracted_data k),
       description := map_option reread (description k)\<rparr>"

text \<open>
  The file is the list of tickets that \<open>JSON.parse\<close> reads from it. \<open>readTicketsData\<close>
  returns that list, and an empty list when reading throws. \<open>writeTicketsData\<close> replaces
  the file content by the tickets as they are written and returns \<open>true\<close>, or leaves the
  file alone and returns \<open>false\<close> when writing throws.
\<close>

definition readTicketsData :: "io \<Rightarrow> jticket list \<Rightarrow> jticket list" where
  "readTicketsData e file = (if read_ok e then file else [])"

definition writeTicketsData :: "io \<Rightarrow> jticket list \<Rightarrow> jticket list \<Rightarrow> bool \<times> jticket list" where
  "writeTicketsData e data file =
     (if write_ok e then (True, map reread_ticket data) else (False, file))"

record tickets_body =
  b_ticket_id :: "json option"
  b_transcript :: "json option"
  b_extracted_data :: "json option"
  b_description :: "json option"

record reply =
  status :: nat
  success :: bool
  message :: string
  r_ticket :: "jticket option"
  r_files :: "file_entry list"
  r_error :: "string option"
  r_transcription :: "string option"
  r_language :: "string option"

definition json_reply :: "nat \<Rightarrow> bool \<Rightarrow> string \<Rightarrow> reply" where
  "json_reply st ok msg =
     \<lparr>status = st, success = ok, message = msg, r_ticket = None, r_files = [], r_error = None,
      r_transcription = None, r_language = None\<rparr>"

definition new_ticket :: "json \<Rightarrow> string \<Rightarrow> jticket" where
  "new_ticket i t =
     \<lparr>tid = i, createdAt = t, uploads = [], transcript = None, extracted_data = None,
      description = None, updatedAt = None\<rparr>"

text \<open>The assignments of \<open>POST /tickets\<close> to the ticket it found or created.\<close>

definition assign_body :: "tickets_body \<Rightarrow> string \<Rightarrow> jticket \<Rightarrow> jticket" where
  "assign_body b t k =
     k\<lparr>transcript := (if truthy_opt (b_transcript b) then b_transcript b else transcript k),
       extracted_data :=
         (if truthy_opt (b_extracted_data b) then b_extracted_data b else extracted_data k),
       description := (if truthy_opt (b_description b) then b_description b else description k),
       updatedAt := Some t\<rparr>"

definition has_id :: "json \<Rightarrow> jticket \<Rightarrow> bool" where
  "has_id i k = strict_eq (tid k) i"

text \<open>
  \<open>POST /tickets\<close>. A ticket that \<open>find\<close> returns is updated where it stands in the
  array; otherwise a new one is pushed and then assigned to. The handler answers with the
  ticket and does not look at the result of \<open>writeTicketsData\<close>. The ticket of a reply is
  the ticket as the body of the response carries it.
\<close>

definition post_tickets :: "io \<Rightarrow> tickets_body \<Rightarrow> jticket list \<Rightarrow> reply \<times> jticket list" where
  "post_tickets e b file =
     (case b_ticket_id b of
        None \<Rightarrow> (json_reply 400 False ''Ticket ID is required'', file)
      | Some i \<Rightarrow>
          if \<not> truthy i then (json_reply 400 False ''Ticket ID is required'', file)
          else
            let data = readTicketsData e file;
                (k, data') =
                  (case find_first (has_id i) data of
                     None \<Rightarrow>
                       (let n = assign_body b (now e) (new_ticket i (now e)) in (n, data @ [n]))
                   | Some k0 \<Rightarrow>
                       (assign_body b (now e) k0,
                        update_first (has_id i) (assign_body b (now e)) data))
            in ((json_reply 200 True ''Ticket saved successfully'')
                  \<lparr>r_ticket := Some (reread_ticket k)\<rparr>,
                snd (writeTicketsData e data' file)))"


subsection \<open>Uploads through multer\<close>

text \<open>
  A file part of a multipart request, with the name that the storage's \<open>filename\<close>
  callback gives it (a UUID, the time and the extension of the original name). A part
  whose file name is empty is what a browser sends for a file input that was left empty.
\<close>

record upfile =
  fieldname :: string
  originalname :: string
  mime :: string
  up_size :: nat
  stored_name :: string

text \<open>
  An error handed to \<open>next\<close>: a \<open>MulterError\<close> with its code and message, or any other
  \<open>Error\<close> with its message.
\<close>

datatype http_error = MulterError string string | OtherError string

definition named :: "upfile \<Rightarrow> bool" where
  "named f = (originalname f \<noteq> [])"

definition allowedTypes :: "string list" where
  "allowedTypes =
     [''image/jpeg'', ''image/jpg'', ''image/png'', ''image/webp'', ''image/heic'',
      ''application/pdf'']"

definition fileFilter :: "upfile \<Rightarrow> http_error option" where
  "fileFilter f =
     (if mime f \<in> set allowedTypes then None
      else Some (OtherError ''Invalid file type. Only images and PDF files are allowed.''))"

definition allowedAudioTypes :: "string list" where
  "allowedAudioTypes =
     [''audio/webm'', ''audio/wav'', ''audio/mp3'', ''audio/mpeg'', ''audio/ogg'', ''audio/x-m4a'']"

definition audioFileFilter :: "upfile \<Rightarrow> http_error option" where
  "audioFileFilter f =
     (if mime f \<in> set allowedAudioTypes \<or> prefix ''audio/'' (mime f) then None
      else Some (OtherError ''Invalid audio file type. Only audio files are allowed.''))"

definition fileSize :: nat where
  "fileSize = 10 * 1024 * 1024"

text \<open>
  The multer middleware for one field (\<open>upload.array(fld, left)\<close>, and \<open>single\<close> with
  \<open>left = 1\<close>). The parts arrive in order, and a part without a file name is skipped.
  For each other part multer first checks that the field is expected and that its count
  is not used up, then asks the file filter, then streams the file to disk and stops when
  it grows beyond the size limit. The first error ends the request: the files stored so
  far are removed and the error goes to \<open>next\<close>.
\<close>

fun multer :: "string \<Rightarrow> nat \<Rightarrow> (upfile \<Rightarrow> http_error option) \<Rightarrow> nat \<Rightarrow> upfile list
    \<Rightarrow> http_error + upfile list" where
  "multer fld left flt cap [] = Inr []"
| "multer fld left flt cap (f # fs) =
     (if \<not> named f then multer fld left flt cap fs
      else if fieldname f \<noteq> fld \<or> left = 0
      then Inl (MulterError ''LIMIT_UNEXPECTED_FILE'' ''Unexpected field'')
      else case flt f of
        Some err \<Rightarrow> Inl err
      | None \<Rightarrow>
          if cap < up_size f then Inl (MulterError ''LIMIT_FILE_SIZE'' ''File too large'')
          else (case multer fld (left - 1) flt cap fs of
                  Inl err \<Rightarrow> Inl err
                | Inr r \<Rightarrow> Inr (f # r)))"

text \<open>The error-handling middleware at the end of the conversation server.\<close>

fun error_handler :: "http_error \<Rightarrow> reply" where
  "error_handler (MulterError code msg) =
     (if code = ''LIMIT_FILE_SIZE''
      then json_reply 400 False ''File too large. Maximum size is 10MB''
      else json_reply 400 False msg)"
| "error_handler (OtherError msg) =
     json_reply 500 False (if msg \<noteq> [] then msg else ''Internal server error'')"

text \<open>\<open>a || b\<close> for a string property that may be absent and a string default.\<close>

fun str_or :: "string option \<Rightarrow> string \<Rightarrow> string" where
  "str_or None d = d"
| "str_or (Some s) d = (if s \<noteq> [] then s else d)"

text \<open>The table \<open>subfolders\<close> (and \<open>typeFolderMap\<close>, which is the same), with its default.\<close>

definition folder_of :: "string \<Rightarrow> string" where
  "folder_of t =
     (if t = ''accident_photos'' then ''accident_photos''
      else if t = ''id_card'' \<or> t = ''id_cards'' then ''id_cards''
      else if t = ''driving_license'' \<or> t = ''driving_licenses'' then ''driving_licenses''
      else if t = ''vehicle_registration'' \<or> t = ''vehicle_registrations''
        then ''vehicle_registrations''
      else ''accident_photos'')"

definition path_join :: "string \<Rightarrow> string \<Rightarrow> string \<Rightarrow> string" where
  "path_join d sub name = d @ ''/'' @ sub @ ''/'' @ name"

function show_nat :: "nat \<Rightarrow> string" where
  "show_nat n =
     (if n < 10 then [char_of (48 + n)] else show_nat (n div 10) @ [char_of (48 + n mod 10)])"
  by pat_completeness auto
termination
  by (relation "measure id") auto

text \<open>
  The multipart body of \<open>POST /upload\<close>. The text fields are strings. When the \<open>type\<close>
  field comes after the files, the storage does not see it yet and picks the default
  folder; the handler moves the files afterwards.
\<close>

record upload_req =
  up_files :: "upfile list"
  up_type :: "string option"
  type_before_files :: bool
  up_ticket_id :: "string option"

definition upload_entry :: "string \<Rightarrow> string \<Rightarrow> string \<Rightarrow> string \<Rightarrow> upfile \<Rightarrow> file_entry" where
  "upload_entry d folder t stamp f =
     \<lparr>filename = stored_name f, originalName = originalname f,
      path = path_join d folder (stored_name f),
      url = ''/uploads/'' @ folder @ ''/'' @ stored_name f,
      ftype = t, fsize = up_size f, mimetype = mime f, uploadedAt = stamp\<rparr>"

text \<open>Where a file ends up: in the folder of the handler when the move succeeds.\<close>

definition placed :: "io \<Rightarrow> string \<Rightarrow> string \<Rightarrow> string \<Rightarrow> upfile \<Rightarrow> string" where
  "placed e d early folder f =
     (let src = path_join d early (stored_name f); dst = path_join d folder (stored_name f)
      in if src \<noteq> dst \<and> rename_ok e src then dst else src)"

definition add_uploads :: "file_entry list \<Rightarrow> string \<Rightarrow> jticket \<Rightarrow> jticket" where
  "add_uploads es t k = k\<lparr>uploads := uploads k @ es, updatedAt := Some t\<rparr>"

text \<open>
  \<open>POST /upload\<close>. The state is the tickets file and the list of paths stored under the
  upload directory \<open>d\<close>.
\<close>

definition upload_route :: "string \<Rightarrow> io \<Rightarrow> upload_req \<Rightarrow> jticket list \<times> string list
    \<Rightarrow> reply \<times> jticket list \<times> string list" where
  "upload_route d e r s =
     (case multer ''files'' 10 fileFilter fileSize (up_files r) of
        Inl err \<Rightarrow> (error_handler err, s)
      | Inr fs \<Rightarrow>
          if fs = [] then (json_reply 400 False ''No files uploaded'', s)
          else
            let t = str_or (up_type r) ''accident_photos'';
                folder = folder_of t;
                early = folder_of (if type_before_files r then t else ''accident_photos'');
                disk = snd s @ map (placed e d early folder) fs;
                es = map (upload_entry d folder t (now e)) fs;
                file =
                  (case up_ticket_id r of
                     None \<Rightarrow> fst s
                   | Some i \<Rightarrow>
                       if i = [] then fst s
                       else
                         let data = readTicketsData e (fst s);
                             data' =
                               (case find_first (has_id (JStr i)) data of
                                  None \<Rightarrow>
                                    data @ [add_uploads es (now e) (new_ticket (JStr i) (now e))]
                                | Some k \<Rightarrow>
                                    update_first (has_id (JStr i)) (add_uploads es (now e)) data)
                         in snd (writeTicketsData e data' (fst s)))
            in ((json_reply 200 True (show_nat (length fs) @ '' file(s) uploaded successfully''))
                  \<lparr>r_files := es\<rparr>,
                file, disk))"

subsection \<open>Speech to text\<close>

record stt_req =
  stt_files :: "upfile list"
  stt_language :: "string option"

text \<open>
  The environment of \<open>POST /stt\<close>: the variable \<open>GROQ_API_KEY\<close> and what the call to the
  transcription service does (\<open>Inl\<close> the message of the error it throws, \<open>Inr\<close> the text).
\<close>

record stt_env =
  GROQ_API_KEY :: "string option"
  groq :: "string + string"

definition unlinkSync :: "io \<Rightarrow> string \<Rightarrow> string list \<Rightarrow> string list" where
  "unlinkSync e p disk = (if unlink_ok e p then removeAll p disk else disk)"

text \<open>
  \<open>POST /stt\<close>. The audio storage has saved the accepted file under \<open>temp_audio\<close> before
  the handler runs. A failing \<open>unlinkSync\<close> is caught and logged on both paths.
\<close>

definition stt_route :: "string \<Rightarrow> io \<Rightarrow> stt_env \<Rightarrow> stt_req \<Rightarrow> string list \<Rightarrow> reply \<times> string list" where
  "stt_route d e v r disk =
     (case multer ''audio'' 1 audioFileFilter fileSize (stt_files r) of
        Inl err \<Rightarrow> (error_handler err, disk)
      | Inr [] \<Rightarrow> (json_reply 400 False ''Audio file is required'', disk)
      | Inr (f # fs) \<Rightarrow>
          let p = path_join d ''temp_audio'' (stored_name f);
              disk1 = disk @ [p];
              language = str_or (stt_language r) ''ar''
          in if str_or (GROQ_API_KEY v) [] = []
             then (json_reply 500 False ''Groq API key not configured'', disk1)
             else (case groq v of
                     Inr text \<Rightarrow>
                       ((json_reply 200 True [])
                          \<lparr>r_transcription := Some text, r_language := Some language\<rparr>,
                        unlinkSync e p disk1)
                   | Inl msg \<Rightarrow>
                       ((json_reply 500 False ''Error transcribing audio'')\<lparr>r_error := Some msg\<rparr>,
                        unlinkSync e p disk1)))"


section \<open>The SQLite backend\<close>

subsection \<open>Schema\<close>

text \<open>
  The tables of \<open>initializeDatabase\<close>. A column that may hold \<open>NULL\<close> is an \<open>option\<close>;
  a \<open>NOT NULL\<close> column is not. Times (\<open>CURRENT_TIMESTAMP\<close>) are numbers handed in with
  each request. The prefix of a field names its table where two tables have a column of
  the same name.
\<close>

record user_row =
  u_id :: nat
  username :: string
  password_hash :: string
  role :: "string option"
  last_login :: "nat option"

record ticket_row =
  t_id :: nat
  ticket_id :: string
  user_id :: "nat option"
  plate :: "string option"
  vehicles :: "int option"
  damage :: "string option"
  t_status :: "string option"
  created_at :: nat
  updated_at :: nat

record conversation_row =
  c_id :: nat
  c_ticket_id :: string
  c_role :: string
  c_content :: string
  c_audio_path :: "string option"
  c_transcription :: "string option"

record finding_row =
  f_id :: nat
  f_ticket_id :: string
  field_name :: string
  field_value :: "string option"
  confidence :: "int option"
  source :: "string option"

record audio_row =
  au_id :: nat
  au_ticket_id :: string
  au_file_path :: string
  au_file_type :: "string option"
  duration :: "int option"

record attachment_row =
  a_id :: nat
  a_ticket_id :: string
  a_filename :: string
  original_name :: string
  a_file_path :: string
  a_file_type :: string
  attachment_type :: "string option"
  a_size :: "int option"

text \<open>
  The database: the rows of each table in insertion order and, for the \<open>AUTOINCREMENT\<close>
  keys, the largest key each table has handed out.
\<close>

record database =
  users :: "user_row list"
  tickets :: "ticket_row list"
  conversations :: "conversation_row list"
  findings :: "finding_row list"
  audio_files :: "audio_row list"
  attachments :: "attachment_row list"
  users_seq :: nat
  tickets_seq :: nat
  conversations_seq :: nat
  findings_seq :: nat
  audio_seq :: nat
  attachments_seq :: nat

definition empty_db :: database where
  "empty_db =
     \<lparr>users = [], tickets = [], conversations = [], findings = [], audio_files = [],
      attachments = [], users_seq = 0, tickets_seq = 0, conversations_seq = 0,
      findings_seq = 0, audio_seq = 0, attachments_seq = 0\<rparr>"

text \<open>
  A statement that breaks a constraint throws a \<open>SqliteError\<close>. The driver is
  better-sqlite3, whose errors carry in \<open>code\<close> the extended result code of SQLite.
\<close>

datatype sqlite_error =
    SQLITE_CONSTRAINT_UNIQUE string
  | SQLITE_CONSTRAINT_FOREIGNKEY
  | SQLITE_CONSTRAINT_NOTNULL string

fun code :: "sqlite_error \<Rightarrow> string" where
  "code (SQLITE_CONSTRAINT_UNIQUE c) = ''SQLITE_CONSTRAINT_UNIQUE''"
| "code SQLITE_CONSTRAINT_FOREIGNKEY = ''SQLITE_CONSTRAINT_FOREIGNKEY''"
| "code (SQLITE_CONSTRAINT_NOTNULL c) = ''SQLITE_CONSTRAINT_NOTNULL''"

fun error_message :: "sqlite_error \<Rightarrow> string" where
  "error_message (SQLITE_CONSTRAINT_UNIQUE c) = ''UNIQUE constraint failed: '' @ c"
| "error_message SQLITE_CONSTRAINT_FOREIGNKEY = ''FOREIGN KEY constraint failed''"
| "error_message (SQLITE_CONSTRAINT_NOTNULL c) = ''NOT NULL constraint failed: '' @ c"

definition ticket_exists :: "string \<Rightarrow> database \<Rightarrow> bool" where
  "ticket_exists i db = (i \<in> ticket_id ` set (tickets db))"

text \<open>
  \<open>INSERT INTO tickets\<close> with the columns of \<open>r\<close> (its key and times are set here).
  \<open>ticket_id\<close> is \<open>UNIQUE\<close>, \<open>user_id\<close> references \<open>users(id)\<close>, and foreign keys are
  switched on.
\<close>

definition insert_ticket :: "nat \<Rightarrow> ticket_row \<Rightarrow> database \<Rightarrow> sqlite_error + nat \<times> database" where
  "insert_ticket clock r db =
     (if ticket_exists (ticket_id r) db then Inl (SQLITE_CONSTRAINT_UNIQUE ''tickets.ticket_id'')
      else if (case user_id r of None \<Rightarrow> False | Some u \<Rightarrow> u \<notin> u_id ` set (users db))
        then Inl SQLITE_CONSTRAINT_FOREIGNKEY
      else
        let n = Suc (tickets_seq db)
        in Inr (n, db\<lparr>tickets := tickets db @ [r\<lparr>t_id := n, created_at := clock, updated_at := clock\<rparr>],
                      tickets_seq := n\<rparr>))"

text \<open>
  Inserts into the four tables whose \<open>ticket_id\<close> references \<open>tickets(ticket_id)\<close>.
\<close>

definition insert_attachment :: "attachment_row \<Rightarrow> database \<Rightarrow> sqlite_error + nat \<times> database" where
  "insert_attachment r db =
     (if \<not> ticket_exists (a_ticket_id r) db then Inl SQLITE_CONSTRAINT_FOREIGNKEY
      else
        let n = Suc (attachments_seq db)
        in Inr (n, db\<lparr>attachments := attachments db @ [r\<lparr>a_id := n\<rparr>], attachments_seq := n\<rparr>))"

definition insert_conversation :: "conversation_row \<Rightarrow> database \<Rightarrow> sqlite_error + nat \<times> database" where
  "insert_conversation r db =
     (if \<not> ticket_exists (c_ticket_id r) db then Inl SQLITE_CONSTRAINT_FOREIGNKEY
      else
        let n = Suc (conversations_seq db)
        in Inr (n, db\<lparr>conversations := conversations db @ [r\<lparr>c_id := n\<rparr>],
                      conversations_seq := n\<rparr>))"

definition insert_finding :: "finding_row \<Rightarrow> database \<Rightarrow> sqlite_error + nat \<times> database" where
  "insert_finding r db =
     (if \<not> ticket_exists (f_ticket_id r) db then Inl SQLITE_CONSTRAINT_FOREIGNKEY
      else
        let n = Suc (findings_seq db)
        in Inr (n, db\<lparr>findings := findings db @ [r\<lparr>f_id := n\<rparr>], findings_seq := n\<rparr>))"

definition insert_audio :: "audio_row \<Rightarrow> database \<Rightarrow> sqlite_error + nat \<times> database" where
  "insert_audio r db =
     (if \<not> ticket_exists (au_ticket_id r) db then Inl SQLITE_CONSTRAINT_FOREIGNKEY
      else
        let n = Suc (audio_seq db)
        in Inr (n, db\<lparr>audio_files := audio_files db @ [r\<lparr>au_id := n\<rparr>], audio_seq := n\<rparr>))"

text \<open>
  \<open>DELETE FROM tickets WHERE ticket_id = ?\<close>. Deleting a ticket row deletes the rows of
  the four referencing tables (\<open>ON DELETE CASCADE\<close>). The count of changes is the number
  of ticket rows deleted.
\<close>

definition delete_ticket :: "string \<Rightarrow> database \<Rightarrow> nat \<times> database" where
  "delete_ticket i db =
     (let hit = filter (\<lambda>t. ticket_id t = i) (tickets db)
      in if hit = [] then (0, db)
         else (length hit,
               db\<lparr>tickets := filter (\<lambda>t. ticket_id t \<noteq> i) (tickets db),
                  conversations := filter (\<lambda>c. c_ticket_id c \<noteq> i) (conversations db),
                  findings := filter (\<lambda>f. f_ticket_id f \<noteq> i) (findings db),
                  audio_files := filter (\<lambda>a. au_ticket_id a \<noteq> i) (audio_files db),
                  attachments := filter (\<lambda>a. a_ticket_id a \<noteq> i) (attachments db)\<rparr>))"

subsection \<open>Tokens\<close>

text \<open>
  The libraries bcryptjs and jsonwebtoken are parameters: \<open>bcrypt_compare password hash\<close>
  on two strings, \<open>jwt_sign payload secret expiresIn clock\<close> and
  \<open>jwt_verify token secret clock\<close>, which gives the payload of a token that verifies and
  \<open>None\<close> where the library throws. \<open>number_text\<close> is the text that SQLite makes of a
  number when it compares it with a column of type \<open>TEXT\<close>.
\<close>

record claims =
  cl_id :: nat
  cl_username :: string
  cl_role :: "string option"

record library =
  bcrypt_compare :: "string \<Rightarrow> string \<Rightarrow> bool"
  bcrypt_hash :: "string \<Rightarrow> string"
  jwt_sign :: "claims \<Rightarrow> string \<Rightarrow> string \<Rightarrow> nat \<Rightarrow> string"
  jwt_verify :: "string \<Rightarrow> string \<Rightarrow> nat \<Rightarrow> claims option"
  number_text :: "json \<Rightarrow> string"

record api_reply =
  a_status :: nat
  a_success :: bool
  a_message :: string
  a_error :: "string option"
  a_token :: "string option"
  a_user :: "claims option"
  a_ticket :: "ticket_row option"
  a_attachments :: "attachment_row list"

definition api_json :: "nat \<Rightarrow> bool \<Rightarrow> string \<Rightarrow> api_reply" where
  "api_json st ok msg =
     \<lparr>a_status = st, a_success = ok, a_message = msg, a_error = None, a_token = None,
      a_user = None, a_ticket = None, a_attachments = []\<rparr>"

text \<open>\<open>String.prototype.split(' ')\<close>.\<close>

fun split_space :: "string \<Rightarrow> string list" where
  "split_space [] = [[]]"
| "split_space (c # cs) =
     (if c = CHR '' '' then [] # split_space cs
      else (case split_space cs of [] \<Rightarrow> [[c]] | w # ws \<Rightarrow> (c # w) # ws))"

text \<open>
  The middleware \<open>verifyToken\<close>: \<open>Inl\<close> the reply that ends the request, \<open>Inr\<close> the decoded
  payload with which the route goes on.
\<close>

definition verifyToken :: "library \<Rightarrow> string \<Rightarrow> nat \<Rightarrow> string option \<Rightarrow> api_reply + claims" where
  "verifyToken lib secret clock authorization =
     (case (case authorization of
              None \<Rightarrow> None
            | Some h \<Rightarrow> (case split_space h of a # t # ws \<Rightarrow> Some t | _ \<Rightarrow> None)) of
        None \<Rightarrow> Inl (api_json 401 False ''No token provided'')
      | Some t \<Rightarrow>
          if t = [] then Inl (api_json 401 False ''No token provided'')
          else (case jwt_verify lib t secret clock of
                  None \<Rightarrow> Inl (api_json 401 False ''Invalid token'')
                | Some c \<Rightarrow> Inr c))"


subsection \<open>Ticket routes\<close>

text \<open>
  Request bodies at the types the routes document. \<open>a || b\<close> on a string that may be
  absent takes \<open>b\<close> when \<open>a\<close> is absent or empty.
\<close>

fun or_else :: "string option \<Rightarrow> string option \<Rightarrow> string option" where
  "or_else None b = b"
| "or_else (Some s) b = (if s \<noteq> [] then Some s else b)"

record attachment_in =
  ai_filename :: "string option"
  ai_originalName :: "string option"
  ai_filePath :: "string option"
  ai_url :: "string option"
  ai_fileType :: "string option"
  ai_attachmentType :: "string option"
  ai_type :: "string option"
  ai_size :: "int option"

record ticket_body =
  tb_ticket_id :: "string option"
  tb_plate :: "string option"
  tb_vehicles :: "int option"
  tb_damage :: "string option"
  tb_user_id :: "nat option"
  tb_attachments :: "attachment_in list option"

text \<open>
  The values that the route binds for one attachment; binding an absent value to a
  \<open>NOT NULL\<close> column makes the statement throw.
\<close>

definition attachment_values :: "string \<Rightarrow> attachment_in \<Rightarrow> sqlite_error + attachment_row" where
  "attachment_values i a =
     (case ai_filename a of
        None \<Rightarrow> Inl (SQLITE_CONSTRAINT_NOTNULL ''attachments.filename'')
      | Some fn \<Rightarrow>
          (case or_else (ai_originalName a) (ai_filename a) of
             None \<Rightarrow> Inl (SQLITE_CONSTRAINT_NOTNULL ''attachments.original_name'')
           | Some orig \<Rightarrow>
               (case or_else (ai_filePath a) (ai_url a) of
                  None \<Rightarrow> Inl (SQLITE_CONSTRAINT_NOTNULL ''attachments.file_path'')
                | Some fp \<Rightarrow>
                    Inr \<lparr>a_id = 0, a_ticket_id = i, a_filename = fn, original_name = orig,
                         a_file_path = fp, a_file_type = str_or (ai_fileType a) ''image/jpeg'',
                         attachment_type =
                           Some (str_or (or_else (ai_attachmentType a) (ai_type a)) ''unknown''),
                         a_size = Some (case ai_size a of None \<Rightarrow> 0 | Some n \<Rightarrow> n)\<rparr>)))"

text \<open>One round of the attachment loop: an error is caught and the loop goes on.\<close>

definition attach :: "string \<Rightarrow> database \<Rightarrow> attachment_in \<Rightarrow> database" where
  "attach i db a =
     (case attachment_values i a of
        Inl err \<Rightarrow> db
      | Inr r \<Rightarrow> (case insert_attachment r db of Inl err \<Rightarrow> db | Inr (n, db') \<Rightarrow> db'))"

definition ticket_values :: "string \<Rightarrow> ticket_body \<Rightarrow> ticket_row" where
  "ticket_values i b =
     \<lparr>t_id = 0, ticket_id = i,
      user_id = (case tb_user_id b of None \<Rightarrow> None | Some u \<Rightarrow> if u = 0 then None else Some u),
      plate = or_else (tb_plate b) None,
      vehicles = Some (case tb_vehicles b of None \<Rightarrow> 1 | Some n \<Rightarrow> if n = 0 then 1 else n),
      damage = or_else (tb_damage b) None,
      t_status = Some ''open'', created_at = 0, updated_at = 0\<rparr>"

text \<open>\<open>POST /api/tickets\<close>.\<close>

definition post_ticket :: "nat \<Rightarrow> ticket_body \<Rightarrow> database \<Rightarrow> api_reply \<times> database" where
  "post_ticket clock b db =
     (case or_else (tb_ticket_id b) None of
        None \<Rightarrow> (api_json 400 False ''Ticket ID is required'', db)
      | Some i \<Rightarrow>
          (case insert_ticket clock (ticket_values i b) db of
             Inl err \<Rightarrow>
               (if code err = ''SQLITE_CONSTRAINT''
                then api_json 409 False ''Ticket ID already exists''
                else (api_json 500 False ''Error creating ticket'')
                       \<lparr>a_error := Some (error_message err)\<rparr>,
                db)
           | Inr (n, db1) \<Rightarrow>
               let db2 = (case tb_attachments b of
                            None \<Rightarrow> db1
                          | Some as \<Rightarrow> foldl (attach i) db1 as)
               in ((api_json 201 True ''Ticket created successfully'')
                     \<lparr>a_ticket := find_first (\<lambda>t. t_id t = n) (tickets db2),
                      a_attachments := filter (\<lambda>a. a_ticket_id a = i) (attachments db2)\<rparr>,
                   db2)))"

record put_body =
  pb_plate :: "string option"
  pb_vehicles :: "int option"
  pb_damage :: "string option"
  pb_status :: "string option"

fun coalesce :: "'a option \<Rightarrow> 'a option \<Rightarrow> 'a option" where
  "coalesce None b = b"
| "coalesce (Some a) b = Some a"

definition update_ticket :: "nat \<Rightarrow> put_body \<Rightarrow> ticket_row \<Rightarrow> ticket_row" where
  "update_ticket clock b t =
     t\<lparr>plate := coalesce (pb_plate b) (plate t),
       vehicles := coalesce (pb_vehicles b) (vehicles t),
       damage := coalesce (pb_damage b) (damage t),
       t_status := coalesce (pb_status b) (t_status t),
       updated_at := clock\<rparr>"

text \<open>\<open>PUT /api/tickets/:ticketId\<close>.\<close>

definition put_ticket :: "library \<Rightarrow> string \<Rightarrow> nat \<Rightarrow> string option \<Rightarrow> string \<Rightarrow> put_body \<Rightarrow> database
    \<Rightarrow> api_reply \<times> database" where
  "put_ticket lib secret clock authorization i b db =
     (case verifyToken lib secret clock authorization of
        Inl r \<Rightarrow> (r, db)
      | Inr c \<Rightarrow>
          (case find_first (\<lambda>t. ticket_id t = i) (tickets db) of
             None \<Rightarrow> (api_json 404 False ''Ticket not found'', db)
           | Some t0 \<Rightarrow>
               let db' = db\<lparr>tickets :=
                              map (\<lambda>t. if ticket_id t = i then update_ticket clock b t else t)
                                (tickets db)\<rparr>
               in ((api_json 200 True ''Ticket updated successfully'')
                     \<lparr>a_ticket := find_first (\<lambda>t. ticket_id t = i) (tickets db')\<rparr>,
                   db')))"

text \<open>\<open>DELETE /api/tickets/:ticketId\<close>.\<close>

definition delete_route :: "library \<Rightarrow> string \<Rightarrow> nat \<Rightarrow> string option \<Rightarrow> string \<Rightarrow> database
    \<Rightarrow> api_reply \<times> database" where
  "delete_route lib secret clock authorization i db =
     (case verifyToken lib secret clock authorization of
        Inl r \<Rightarrow> (r, db)
      | Inr c \<Rightarrow>
          if cl_role c \<noteq> Some ''admin'' then (api_json 403 False ''Admin access required'', db)
          else
            let (changes, db') = delete_ticket i db
            in if changes = 0 then (api_json 404 False ''Ticket not found'', db')
               else (api_json 200 True ''Ticket deleted successfully'', db'))"

record conversation_body =
  cb_role :: "string option"
  cb_content :: "string option"
  cb_audio_path :: "string option"
  cb_transcription :: "string option"

text \<open>\<open>POST /api/tickets/:ticketId/conversations\<close>.\<close>

definition post_conversation :: "string \<Rightarrow> conversation_body \<Rightarrow> database \<Rightarrow> api_reply \<times> database" where
  "post_conversation i b db =
     (case (or_else (cb_role b) None, or_else (cb_content b) None) of
        (Some r, Some c) \<Rightarrow>
          (case insert_conversation
                  \<lparr>c_id = 0, c_ticket_id = i, c_role = r, c_content = c,
                   c_audio_path = or_else (cb_audio_path b) None,
                   c_transcription = or_else (cb_transcription b) None\<rparr> db of
             Inl err \<Rightarrow> (api_json 500 False ''Error adding conversation'', db)
           | Inr (n, db') \<Rightarrow> (api_json 201 True ''Conversation added successfully'', db'))
      | _ \<Rightarrow> (api_json 400 False ''Role and content are required'', db))"

record finding_body =
  fb_field_name :: "string option"
  fb_field_value :: "string option"
  fb_confidence :: "int option"
  fb_source :: "string option"

text \<open>\<open>POST /api/tickets/:ticketId/findings\<close>.\<close>

definition post_finding :: "string \<Rightarrow> finding_body \<Rightarrow> database \<Rightarrow> api_reply \<times> database" where
  "post_finding i b db =
     (case or_else (fb_field_name b) None of
        None \<Rightarrow> (api_json 400 False ''Field name is required'', db)
      | Some fld \<Rightarrow>
          (case insert_finding
                  \<lparr>f_id = 0, f_ticket_id = i, field_name = fld,
                   field_value = or_else (fb_field_value b) None,
                   confidence = (case fb_confidence b of
                                   None \<Rightarrow> None
                                 | Some n \<Rightarrow> if n = 0 then None else Some n),
                   source = Some (str_or (fb_source b) ''manual'')\<rparr> db of
             Inl err \<Rightarrow> (api_json 500 False ''Error adding finding'', db)
           | Inr (n, db') \<Rightarrow> (api_json 201 True ''Finding added successfully'', db')))"

subsection \<open>Audio routes\<close>

text \<open>
  What the audio routes do to the database, once multer has accepted and stored the file
  under the name \<open>fn\<close> with MIME type \<open>mt\<close>. \<open>POST /api/upload/audio\<close> inserts a row when a
  ticket id is given.
\<close>

definition upload_audio :: "string option \<Rightarrow> string \<Rightarrow> string \<Rightarrow> int option \<Rightarrow> database
    \<Rightarrow> api_reply \<times> database" where
  "upload_audio i fn mt dur db =
     (case or_else i None of
        None \<Rightarrow> (api_json 200 True ''Audio uploaded successfully'', db)
      | Some k \<Rightarrow>
          (case insert_audio
                  \<lparr>au_id = 0, au_ticket_id = k, au_file_path = fn, au_file_type = Some mt,
                   duration = (case dur of None \<Rightarrow> None | Some n \<Rightarrow> if n = 0 then None else Some n)\<rparr>
                  db of
             Inl err \<Rightarrow> ((api_json 500 False (error_message err)), db)
           | Inr (n, db') \<Rightarrow> (api_json 200 True ''Audio uploaded successfully'', db')))"

text \<open>
  \<open>POST /api/upload/transcribe\<close>, with the outcome of the transcription service: after a
  transcription it inserts the audio file and then the conversation.
\<close>

definition transcribe :: "string option \<Rightarrow> string \<Rightarrow> string \<Rightarrow> string + string \<Rightarrow> database
    \<Rightarrow> api_reply \<times> database" where
  "transcribe i fn mt outcome db =
     (case outcome of
        Inl msg \<Rightarrow> (api_json 500 False (if msg \<noteq> [] then msg else ''Error transcribing audio''), db)
      | Inr text \<Rightarrow>
          (case or_else i None of
             None \<Rightarrow> (api_json 200 True ''Audio transcribed successfully'', db)
           | Some k \<Rightarrow>
               (case insert_audio
                       \<lparr>au_id = 0, au_ticket_id = k, au_file_path = fn, au_file_type = Some mt,
                        duration = None\<rparr> db of
                  Inl err \<Rightarrow> (api_json 500 False (error_message err), db)
                | Inr (n, db1) \<Rightarrow>
                    (case insert_conversation
                            \<lparr>c_id = 0, c_ticket_id = k, c_role = ''user'', c_content = text,
                             c_audio_path = Some fn, c_transcription = Some text\<rparr> db1 of
                       Inl err \<Rightarrow> (api_json 500 False (error_message err), db1)
                     | Inr (m, db2) \<Rightarrow>
                         (api_json 200 True ''Audio transcribed successfully'', db2)))))"

text \<open>\<open>DELETE /api/upload/audio/:filename\<close>; \<open>on_disk\<close> says whether the file exists.\<close>

definition delete_audio :: "bool \<Rightarrow> string \<Rightarrow> database \<Rightarrow> api_reply \<times> database" where
  "delete_audio on_disk fn db =
     (if \<not> on_disk then (api_json 404 False ''Audio file not found'', db)
      else (api_json 200 True ''Audio file deleted successfully'',
            db\<lparr>audio_files := filter (\<lambda>a. au_file_path a \<noteq> fn) (audio_files db)\<rparr>))"

subsection \<open>Login\<close>

text \<open>
  The two properties of the body, which may be absent and may hold any JSON value.
\<close>

record login_body =
  lb_username :: "json option"
  lb_password :: "json option"

text \<open>
  What better-sqlite3 binds to the one \<open>?\<close> of a statement from one argument of \<open>get\<close>:
  a string, a number or \<open>null\<close> is bound as it is; an array is taken as the list of all
  parameters and has to hold exactly one such value; a boolean cannot be bound, and an
  object is taken as named parameters, of which the statement has none. \<open>None\<close> is the
  exception that \<open>get\<close> throws.
\<close>

fun bindable :: "json \<Rightarrow> bool" where
  "bindable (JBool b) = False"
| "bindable (JArr xs) = False"
| "bindable (JObj ms) = False"
| "bindable v = True"

fun bind_parameter :: "json \<Rightarrow> json option" where
  "bind_parameter (JArr [v]) = (if bindable v then Some v else None)"
| "bind_parameter (JArr xs) = None"
| "bind_parameter v = (if bindable v then Some v else None)"

text \<open>
  \<open>SELECT * FROM users WHERE username = ?\<close> with the bound value. The column is unique.
  A number is compared by the text that SQLite makes of it, and nothing equals \<open>NULL\<close>.
\<close>

fun user_named :: "library \<Rightarrow> json \<Rightarrow> database \<Rightarrow> user_row option" where
  "user_named lib (JStr name) db = find_first (\<lambda>u. username u = name) (users db)"
| "user_named lib JNull db = None"
| "user_named lib v db = find_first (\<lambda>u. username u = number_text lib v) (users db)"

text \<open>
  \<open>POST /api/auth/login\<close>. \<open>bcrypt.compare\<close> rejects a password that is no string; that
  and the exception of \<open>get\<close> end in the \<open>catch\<close> of the handler.
\<close>

definition login :: "library \<Rightarrow> string \<Rightarrow> nat \<Rightarrow> login_body \<Rightarrow> database \<Rightarrow> api_reply \<times> database" where
  "login lib secret clock b db =
     (if \<not> truthy_opt (lb_username b) \<or> \<not> truthy_opt (lb_password b)
      then (api_json 400 False ''Username and password are required'', db)
      else
        case Option.bind (lb_username b) bind_parameter of
          None \<Rightarrow> (api_json 500 False ''Server error during login'', db)
        | Some v \<Rightarrow>
            (case user_named lib v db of
               None \<Rightarrow> (api_json 401 False ''Invalid username or password'', db)
             | Some u \<Rightarrow>
                 (case lb_password b of
                    Some (JStr pw) \<Rightarrow>
                      if \<not> bcrypt_compare lib pw (password_hash u)
                      then (api_json 401 False ''Invalid username or password'', db)
                      else
                        let c = \<lparr>cl_id = u_id u, cl_username = username u, cl_role = role u\<rparr>
                        in ((api_json 200 True ''Login successful'')
                              \<lparr>a_token := Some (jwt_sign lib c secret ''24h'' clock),
                               a_user := Some c\<rparr>,
                            db\<lparr>users :=
                                 map (\<lambda>r. if u_id r = u_id u then r\<lparr>last_login := Some clock\<rparr>
                                           else r)
                                   (users db)\<rparr>)
                  | _ \<Rightarrow> (api_json 500 False ''Server error during login'', db))))"

subsection \<open>The initialisation script\<close>

definition initializeAdminUser :: "library \<Rightarrow> string \<Rightarrow> string \<Rightarrow> database \<Rightarrow> database" where
  "initializeAdminUser lib adminUsername adminPassword db =
     (case find_first (\<lambda>u. username u = adminUsername) (users db) of
        Some u \<Rightarrow> db
      | None \<Rightarrow>
          let n = Suc (users_seq db)
          in db\<lparr>users := users db @
                   [\<lparr>u_id = n, username = adminUsername,
                     password_hash = bcrypt_hash lib adminPassword, role = Some ''admin'',
                     last_login = None\<rparr>],
                users_seq := n\<rparr>)"

text \<open>\<open>INSERT OR IGNORE\<close> skips a row whose ticket id is taken.\<close>

definition insert_or_ignore :: "nat \<Rightarrow> database \<Rightarrow> ticket_row \<Rightarrow> database" where
  "insert_or_ignore clock db r =
     (case insert_ticket clock r db of Inl err \<Rightarrow> db | Inr (n, db') \<Rightarrow> db')"

definition sample_tickets :: "ticket_row list" where
  "sample_tickets =
     [\<lparr>t_id = 0, ticket_id = ''A-1001'', user_id = None, plate = Some ''ABC1234'',
       vehicles = Some 2, damage = Some ''Front bumper damage'', t_status = Some ''open'',
       created_at = 0, updated_at = 0\<rparr>,
      \<lparr>t_id = 0, ticket_id = ''A-1002'', user_id = None, plate = Some ''XYZ5678'',
       vehicles = Some 1, damage = Some ''Side mirror broken'', t_status = Some ''pending'',
       created_at = 0, updated_at = 0\<rparr>]"

definition createSampleData :: "nat \<Rightarrow> database \<Rightarrow> database" where
  "createSampleData clock db = foldl (insert_or_ignore clock) db sample_tickets"

subsection \<open>Reachable database states\<close>

text \<open>
  Everything that writes to the database: the routes above and the initialisation script.
  The routes that only read are left out.
\<close>

datatype request =
    PostTicket nat ticket_body
  | PutTicket nat "string option" string put_body
  | DeleteTicket nat "string option" string
  | PostConversation string conversation_body
  | PostFinding string finding_body
  | UploadAudio "string option" string string "int option"
  | Transcribe "string option" string string "string + string"
  | DeleteAudio bool string
  | Login nat login_body
  | InitDb nat string string

fun handle :: "library \<Rightarrow> string \<Rightarrow> request \<Rightarrow> database \<Rightarrow> database" where
  "handle lib secret (PostTicket clock b) db = snd (post_ticket clock b db)"
| "handle lib secret (PutTicket clock h i b) db = snd (put_ticket lib secret clock h i b db)"
| "handle lib secret (DeleteTicket clock h i) db = snd (delete_route lib secret clock h i db)"
| "handle lib secret (PostConversation i b) db = snd (post_conversation i b db)"
| "handle lib secret (PostFinding i b) db = snd (post_finding i b db)"
| "handle lib secret (UploadAudio i fn mt dur) db = snd (upload_audio i fn mt dur db)"
| "handle lib secret (Transcribe i fn mt outcome) db = snd (transcribe i fn mt outcome db)"
| "handle lib secret (DeleteAudio on_disk fn) db = snd (delete_audio on_disk fn db)"
| "handle lib secret (Login clock b) db = snd (login lib secret clock b db)"
| "handle lib secret (InitDb clock name pw) db =
     createSampleData clock (initializeAdminUser lib name pw db)"

inductive reachable :: "library \<Rightarrow> string \<Rightarrow> database \<Rightarrow> bool" for lib secret where
  start: "reachable lib secret empty_db"
| step: "reachable lib secret db \<Longrightarrow> reachable lib secret (handle lib secret r db)"


subsection \<open>Constraints\<close>

text \<open>
  What the schema promises: no two tickets have the same \<open>ticket_id\<close>, and every row of
  the four referencing tables names an existing ticket.
\<close>

definition unique_ticket_ids :: "database \<Rightarrow> bool" where
  "unique_ticket_ids db = distinct (map ticket_id (tickets db))"

definition foreign_keys_hold :: "database \<Rightarrow> bool" where
  "foreign_keys_hold db =
     ((\<forall>a \<in> set (attachments db). ticket_exists (a_ticket_id a) db) \<and>
      (\<forall>c \<in> set (conversations db). ticket_exists (c_ticket_id c) db) \<and>
      (\<forall>f \<in> set (findings db). ticket_exists (f_ticket_id f) db) \<and>
      (\<forall>a \<in> set (audio_files db). ticket_exists (au_ticket_id a) db))"


section \<open>The chat client\<close>

subsection \<open>Regular expressions\<close>

text \<open>
  The regular expressions of the client are sequences of single characters, of the class
  \<open>[\s\S]\<close> (any character), and of greedy (\<open>*\<close>) or lazy (\<open>*?\<close>) repetitions of these.
  \<open>rmatch r s\<close> is the backtracking matcher anchored at the start of \<open>s\<close>: the length of
  the match the engine finds first, if there is one. A greedy star first tries one more
  character, a lazy star first tries the rest of the pattern.
\<close>

datatype atom = Lit char | Any

datatype item = One atom | Star atom | Lazy atom

fun accepts :: "atom \<Rightarrow> char \<Rightarrow> bool" where
  "accepts (Lit a) c = (a = c)"
| "accepts Any c = True"

fun rmatch :: "item list \<Rightarrow> string \<Rightarrow> nat option" where
  "rmatch [] s = Some 0"
| "rmatch (One a # r) [] = None"
| "rmatch (One a # r) (c # cs) = (if accepts a c then map_option Suc (rmatch r cs) else None)"
| "rmatch (Star a # r) [] = rmatch r []"
| "rmatch (Star a # r) (c # cs) =
     (if accepts a c
      then (case rmatch (Star a # r) cs of
              Some n \<Rightarrow> Some (Suc n)
            | None \<Rightarrow> rmatch r (c # cs))
      else rmatch r (c # cs))"
| "rmatch (Lazy a # r) [] = rmatch r []"
| "rmatch (Lazy a # r) (c # cs) =
     (case rmatch r (c # cs) of
        Some n \<Rightarrow> Some n
      | None \<Rightarrow> if accepts a c then map_option Suc (rmatch (Lazy a # r) cs) else None)"

text \<open>
  \<open>s.match(r)\<close> without the \<open>g\<close> flag: the match at the leftmost position that has one.
\<close>

fun str_match :: "item list \<Rightarrow> string \<Rightarrow> string option" where
  "str_match r [] = map_option (\<lambda>n. []) (rmatch r [])"
| "str_match r (c # cs) =
     (case rmatch r (c # cs) of
        Some n \<Rightarrow> Some (take n (c # cs))
      | None \<Rightarrow> str_match r cs)"

text \<open>\<open>s.replace(r, '')\<close> with the \<open>g\<close> flag, for a pattern that matches no empty string.\<close>

fun replace_all :: "item list \<Rightarrow> string \<Rightarrow> string" where
  "replace_all r [] = []"
| "replace_all r (c # cs) =
     (case rmatch r (c # cs) of
        None \<Rightarrow> c # replace_all r cs
      | Some n \<Rightarrow> if n = 0 then c # replace_all r cs else replace_all r (drop (n - 1) cs))"

definition lits :: "string \<Rightarrow> item list" where
  "lits s = map (\<lambda>c. One (Lit c)) s"

definition quoted_phase :: string where
  "quoted_phase = CHR 0x22 # ''phase'' @ [CHR 0x22]"

subsection \<open>JSON.parse\<close>

text \<open>
  A parser for the JSON grammar, used to run \<open>parseLLMState\<close> on concrete messages: a
  scanner that turns the text into tokens, and a stack machine that builds the value.
  Both read their input once from left to right. \<open>None\<close> is the \<open>SyntaxError\<close>.
\<close>

datatype token =
    TLBrace | TRBrace | TLBrack | TRBrack | TColon | TComma
  | TString string | TNumber rat | TTrue | TFalse | TNull























text \<open>Property access \<open>v.k\<close>: \<open>undefined\<close> on a missing key and on a value without members.\<close>

fun get :: "json \<Rightarrow> string \<Rightarrow> json option" where
  "get (JObj ms) k = map_of ms k"
| "get v k = None"


text \<open>The pattern of \<open>parseLLMState\<close>: \<open>/\{[\s\S]*"phase"[\s\S]*\}/\<close>.\<close>

definition state_pattern :: "item list" where
  "state_pattern = lits ''{'' @ [Star Any] @ lits quoted_phase @ [Star Any] @ lits ''}''"

text \<open>
  \<open>parseLLMState\<close>. \<open>JSON.parse\<close> is the parameter \<open>parse\<close>, with \<open>None\<close> where it throws;
  the \<open>catch\<close> turns that into \<open>null\<close>, which is \<open>None\<close> as well.
\<close>

definition parseLLMState :: "(string \<Rightarrow> json option) \<Rightarrow> string \<Rightarrow> json option" where
  "parseLLMState parse msg =
     (case str_match state_pattern msg of
        Some jsonStr \<Rightarrow> parse jsonStr
      | None \<Rightarrow> None)"

text \<open>The three patterns of \<open>extractMessageText\<close>, and \<open>trim\<close> on the ASCII white space.\<close>

definition fence :: string where
  "fence = [CHR 0x60, CHR 0x60, CHR 0x60]"

definition json_fence_pattern :: "item list" where
  "json_fence_pattern = lits (fence @ ''json'') @ [Lazy Any] @ lits fence"

definition fence_pattern :: "item list" where
  "fence_pattern = lits fence @ [Lazy Any] @ lits fence"

definition lazy_state_pattern :: "item list" where
  "lazy_state_pattern = lits ''{'' @ [Lazy Any] @ lits quoted_phase @ [Lazy Any] @ lits ''}''"

definition white :: "char \<Rightarrow> bool" where
  "white c = (c \<in> {CHR '' '', CHR 0x09, CHR 0x0A, CHR 0x0B, CHR 0x0C, CHR 0x0D})"

definition trim :: "string \<Rightarrow> string" where
  "trim s = rev (dropWhile white (rev (dropWhile white s)))"

definition extractMessageText :: "string \<Rightarrow> string" where
  "extractMessageText fullMessage =
     trim (replace_all lazy_state_pattern
       (trim (replace_all fence_pattern
         (trim (replace_all json_fence_pattern fullMessage)))))"


text \<open>
  What \<open>parseLLMState\<close> hands to \<open>JSON.parse\<close>, told without the matcher: the text from the
  first opening brace of the message through its last closing brace, when the quoted word
  \<open>"phase"\<close> stands somewhere between the two.
\<close>

definition upto_last :: "char \<Rightarrow> string \<Rightarrow> string" where
  "upto_last c s = rev (dropWhile (\<lambda>x. x \<noteq> c) (rev s))"

definition brace_span :: "string \<Rightarrow> string option" where
  "brace_span m =
     (let t = upto_last (CHR ''}'') (dropWhile (\<lambda>x. x \<noteq> CHR ''{'') m)
      in if sublist quoted_phase (butlast (tl t)) then Some t else None)"

text \<open>
  The quoted word \<open>"phase"\<close> occurs in \<open>t\<close> and a closing brace comes somewhere after it.
\<close>

definition phase_then_brace :: "string \<Rightarrow> bool" where
  "phase_then_brace t = (\<exists>u v. t = u @ quoted_phase @ v \<and> CHR ''}'' \<in> set v)"


subsection \<open>State of the page\<close>

text \<open>
  The texts that the client shows or sends. Where the source picks the Arabic or the
  English wording, the constructor carries \<open>currentLanguage\<close>.
\<close>

datatype line =
    Verbatim string
  | Image string
  | ConfigureKey string
  | ErrorOccurred string
  | InvalidImage string
  | WaitForInstructions string
  | Uploading
  | Uploaded
  | UploadFailed
  | UploadNotice string
  | TicketCreated string string
  | TicketFailed
  | PleaseUpload string
  | TypeYourMessage string

record uploaded =
  accident_photos :: "json list"
  id_card :: "json option"
  driving_license :: "json option"
  vehicle_registration :: "json option"

record ticket_payload =
  p_ticket_id :: string
  p_transcript :: "(string \<times> line) list"
  p_extracted_data :: json
  p_description :: json

text \<open>
  The requests that leave the page: the chat completion with the messages sent, the
  image upload with the file name and the upload type, the \<open>POST /tickets\<close> with its
  payload and whether it was answered with success, and the speech of a message.
\<close>

datatype call =
    ChatCompletion "(string \<times> line) list"
  | BackendUpload string "string option"
  | PostTickets ticket_payload bool
  | Speak string string

datatype saved_ticket = FromBackend json | FromPayload ticket_payload

text \<open>
  The global variables of \<open>app.js\<close> and the parts of the document they drive:
  \<open>attachBtn\<close> is the \<open>display\<close> style of the attach button and \<open>messageInput\<close> the
  placeholder of the input (\<open>None\<close> when the element is missing), \<open>imageInput\<close> is the
  value of the file input. \<open>calls\<close> collects the requests sent so far.
\<close>

record client =
  currentLanguage :: string
  chatHistory :: "(string \<times> line) list"
  currentTicket :: "saved_ticket option"
  currentPhase :: json
  ticketData :: json
  voiceEnabled :: bool
  ticketAlreadyCreated :: bool
  uploadedFiles :: uploaded
  local_tickets :: "saved_ticket list"
  activePage :: string
  chatMessages :: "(string \<times> line) list"
  typingIndicator :: bool
  attachBtn :: "string option"
  messageInput :: "line option"
  imageInput :: string
  alerts :: "line list"
  calls :: "call list"

definition no_uploads :: uploaded where
  "no_uploads =
     \<lparr>accident_photos = [], id_card = None, driving_license = None,
      vehicle_registration = None\<rparr>"

definition addMessage :: "string \<Rightarrow> line \<Rightarrow> client \<Rightarrow> client" where
  "addMessage who what st = st\<lparr>chatMessages := chatMessages st @ [(who, what)]\<rparr>"

definition send :: "call \<Rightarrow> client \<Rightarrow> client" where
  "send c st = st\<lparr>calls := calls st @ [c]\<rparr>"

definition goToLanding :: "client \<Rightarrow> client" where
  "goToLanding st =
     st\<lparr>activePage := ''landingPage'', chatHistory := [], currentTicket := None,
        currentPhase := JStr ''greeting'', ticketData := JObj [], voiceEnabled := False,
        ticketAlreadyCreated := False, uploadedFiles := no_uploads, chatMessages := []\<rparr>"

definition toggleLanguage :: "client \<Rightarrow> client" where
  "toggleLanguage st =
     st\<lparr>currentLanguage := (if currentLanguage st = ''ar'' then ''en'' else ''ar'')\<rparr>"

subsection \<open>Phases\<close>

definition uploadPhases :: "string list" where
  "uploadPhases = [''accident_photos'', ''id_card'', ''driving_license'', ''vehicle_registration'']"

text \<open>\<open>uploadPhases.includes(phase)\<close>, for a phase that may be any JSON value.\<close>

definition is_upload_phase :: "json \<Rightarrow> bool" where
  "is_upload_phase p = (p \<in> set (map JStr uploadPhases))"

definition updateUIForPhase :: "json \<Rightarrow> client \<Rightarrow> client" where
  "updateUIForPhase phase st =
     (if is_upload_phase phase
      then st\<lparr>attachBtn := map_option (\<lambda>d. ''block'') (attachBtn st),
              messageInput := map_option (\<lambda>p. PleaseUpload (currentLanguage st)) (messageInput st)\<rparr>
      else st\<lparr>messageInput :=
                map_option (\<lambda>p. TypeYourMessage (currentLanguage st)) (messageInput st)\<rparr>)"

subsection \<open>Creating the ticket\<close>

text \<open>\<open>a || b\<close> for a property that may be absent.\<close>

fun js_or :: "json option \<Rightarrow> json \<Rightarrow> json" where
  "js_or None d = d"
| "js_or (Some v) d = (if truthy v then v else d)"

text \<open>
  What happens around one call of \<open>createTicketFromLLMData\<close>: \<open>Date.now()\<close>,
  \<open>Math.floor(Math.random() * 1000)\<close> and the fate of the request (\<open>PostFailed\<close> when
  \<open>fetch\<close> throws or the response is not ok, else the \<open>ticket\<close> of the response).
\<close>

datatype post_outcome = PostFailed | PostOk "json option"

record create_env =
  date_now :: nat
  random :: nat
  post_result :: post_outcome

definition extracted :: "json \<Rightarrow> uploaded \<Rightarrow> json" where
  "extracted td up =
     JObj [(''description'', js_or (get td ''description'') (JStr [])),
           (''location'', js_or (get td ''location'') (JStr [])),
           (''number_of_vehicles'', js_or (get td ''number_of_vehicles'') (JNum 0)),
           (''injuries'', js_or (get td ''injuries'') (JBool False)),
           (''accident_photos_count'', js_or (get td ''accident_photos_count'') (JNum 0)),
           (''id_card_received'', js_or (get td ''id_card_received'') (JBool False)),
           (''driving_license_received'', js_or (get td ''driving_license_received'') (JBool False)),
           (''vehicle_registration_received'',
              js_or (get td ''vehicle_registration_received'') (JBool False)),
           (''uploads'',
              JObj [(''accident_photos'', JArr (accident_photos up)),
                    (''id_card'', js_or (id_card up) JNull),
                    (''driving_license'', js_or (driving_license up) JNull),
                    (''vehicle_registration'', js_or (vehicle_registration up) JNull)])]"

definition createTicketFromLLMData :: "create_env \<Rightarrow> client \<Rightarrow> client" where
  "createTicketFromLLMData e st =
     (if ticketAlreadyCreated st then st
      else
        let ticketId = ''T-'' @ show_nat (date_now e) @ ''-'' @ show_nat (random e);
            ticketPayload =
              \<lparr>p_ticket_id = ticketId, p_transcript = chatHistory st,
               p_extracted_data = extracted (ticketData st) (uploadedFiles st),
               p_description = js_or (get (ticketData st) ''description'') (JStr ''Accident report'')\<rparr>
        in case post_result e of
             PostFailed \<Rightarrow>
               addMessage ''system'' TicketFailed (send (PostTickets ticketPayload False) st)
           | PostOk t \<Rightarrow>
               let saved = (case t of
                              None \<Rightarrow> FromPayload ticketPayload
                            | Some v \<Rightarrow> if truthy v then FromBackend v else FromPayload ticketPayload);
                   st1 = addMessage ''system'' (TicketCreated (currentLanguage st) ticketId)
                           (send (PostTickets ticketPayload True) st)
               in st1\<lparr>local_tickets := local_tickets st1 @ [saved], currentTicket := Some saved,
                      ticketAlreadyCreated := True, currentPhase := JStr ''completed''\<rparr>)"

subsection \<open>Talking to the language model\<close>

text \<open>
  What happens around one call of \<open>getAIResponse\<close>: whether the API key is configured,
  the text of the completion (\<open>None\<close> when the request or the reading of its answer
  throws), whether the speech module is loaded, and the environment of the ticket creation.
\<close>

record ai_env =
  config_ok :: bool
  completion :: "string option"
  tts_loaded :: bool
  on_done :: create_env

text \<open>The update of the state from a parsed state block with a truthy \<open>phase\<close>.\<close>

definition enter_phase :: "create_env \<Rightarrow> json \<Rightarrow> json \<Rightarrow> client \<Rightarrow> client" where
  "enter_phase e v p st =
     (let st1 = updateUIForPhase p
                  (st\<lparr>currentPhase := p, ticketData := js_or (get v ''ticket'') (ticketData st)\<rparr>)
      in if strict_eq (currentPhase st1) (JStr ''done'') \<and> \<not> ticketAlreadyCreated st1
         then createTicketFromLLMData e st1
         else st1)"

definition getAIResponse :: "(string \<Rightarrow> json option) \<Rightarrow> ai_env \<Rightarrow> client \<Rightarrow> client" where
  "getAIResponse parse e st =
     (if \<not> config_ok e then addMessage ''system'' (ConfigureKey (currentLanguage st)) st
      else
        let st1 = send (ChatCompletion (chatHistory st)) (st\<lparr>typingIndicator := True\<rparr>)
        in case completion e of
             None \<Rightarrow>
               addMessage ''system'' (ErrorOccurred (currentLanguage st1))
                 (st1\<lparr>typingIndicator := False\<rparr>)
           | Some fullMessage \<Rightarrow>
               let state = parseLLMState parse fullMessage;
                   messageText = extractMessageText fullMessage;
                   st2 = addMessage ''assistant'' (Verbatim messageText)
                           (st1\<lparr>typingIndicator := False\<rparr>);
                   st3 = st2\<lparr>chatHistory := chatHistory st2 @ [(''assistant'', Verbatim fullMessage)]\<rparr>;
                   st4 = (case state of
                            None \<Rightarrow> st3
                          | Some v \<Rightarrow>
                              if truthy v \<and> truthy_opt (get v ''phase'')
                              then enter_phase (on_done e) v (the (get v ''phase'')) st3
                              else st3)
               in if voiceEnabled st4 \<and> tts_loaded e
                  then send (Speak messageText (currentLanguage st4)) st4
                  else st4)"

definition sendMessage :: "(string \<Rightarrow> json option) \<Rightarrow> ai_env \<Rightarrow> string \<Rightarrow> client \<Rightarrow> client" where
  "sendMessage parse e typed st =
     (if trim typed = [] then st
      else getAIResponse parse e
             ((addMessage ''user'' (Verbatim (trim typed)) st)
                \<lparr>chatHistory := chatHistory st @ [(''user'', Verbatim (trim typed))]\<rparr>))"

definition startReport :: "(string \<Rightarrow> json option) \<Rightarrow> ai_env \<Rightarrow> string \<Rightarrow> client \<Rightarrow> client" where
  "startReport parse e prompt st =
     getAIResponse parse e
       (st\<lparr>activePage := ''chatPage'', chatHistory := [(''system'', Verbatim prompt)]\<rparr>)"

text \<open>
  A message that arrives by voice: the recorder switches the voice mode on, and the
  transcribed text goes the way of a typed message.
\<close>

definition voiceMessage :: "(string \<Rightarrow> json option) \<Rightarrow> ai_env \<Rightarrow> string \<Rightarrow> client \<Rightarrow> client" where
  "voiceMessage parse e heard st =
     getAIResponse parse e
       ((addMessage ''user'' (Verbatim heard) st)
          \<lparr>voiceEnabled := True, chatHistory := chatHistory st @ [(''user'', Verbatim heard)]\<rparr>)"

subsection \<open>Image upload\<close>

record picked =
  pk_name :: string
  pk_type :: string
  pk_data :: string

text \<open>
  What happens around one upload: the file name and URL in the answer of the backend
  (\<open>None\<close> when the upload throws) and the environment of the call of \<open>getAIResponse\<close>
  that follows a successful upload.
\<close>

record upload_env =
  upload_result :: "(string \<times> string) option"
  then_ai :: ai_env

text \<open>The \<open>switch\<close> on the phase; without a matching case the type stays \<open>undefined\<close>.\<close>

definition uploadType :: "json \<Rightarrow> string option" where
  "uploadType p =
     (if p = JStr ''accident_photos'' then Some ''accident_photos''
      else if p = JStr ''id_card'' then Some ''id_cards''
      else if p = JStr ''driving_license'' then Some ''driving_licenses''
      else if p = JStr ''vehicle_registration'' then Some ''vehicle_registrations''
      else None)"

definition track :: "json \<Rightarrow> string option \<Rightarrow> json \<Rightarrow> uploaded \<Rightarrow> uploaded" where
  "track p t entry up =
     (if t = Some ''accident_photos'' then up\<lparr>accident_photos := accident_photos up @ [entry]\<rparr>
      else if p = JStr ''id_card'' then up\<lparr>id_card := Some entry\<rparr>
      else if p = JStr ''driving_license'' then up\<lparr>driving_license := Some entry\<rparr>
      else if p = JStr ''vehicle_registration'' then up\<lparr>vehicle_registration := Some entry\<rparr>
      else up)"

text \<open>
  The \<open>onload\<close> handler of the file reader. The bubble that says \<open>uploading\<close> is the last
  one when the upload returns, and is removed.
\<close>

definition reader_onload :: "(string \<Rightarrow> json option) \<Rightarrow> upload_env \<Rightarrow> picked \<Rightarrow> client \<Rightarrow> client" where
  "reader_onload parse e f st =
     (let st1 = addMessage ''system'' Uploading (addMessage ''user'' (Image (pk_data f)) st);
          t = uploadType (currentPhase st1);
          st2 = send (BackendUpload (pk_name f) t) st1
      in case upload_result e of
           None \<Rightarrow>
             addMessage ''system'' UploadFailed (st2\<lparr>chatMessages := butlast (chatMessages st2)\<rparr>)
         | Some (name, link) \<Rightarrow>
             let entry = JObj [(''filename'', JStr name), (''url'', JStr link),
                               (''type'', (case t of None \<Rightarrow> JNull | Some s \<Rightarrow> JStr s))];
                 st3 = st2\<lparr>uploadedFiles := track (currentPhase st2) t entry (uploadedFiles st2)\<rparr>;
                 st4 = addMessage ''system'' Uploaded (st3\<lparr>chatMessages := butlast (chatMessages st3)\<rparr>);
                 st5 = st4\<lparr>chatHistory :=
                             chatHistory st4 @ [(''user'', UploadNotice (currentLanguage st4))]\<rparr>
             in getAIResponse parse (then_ai e) st5)"

text \<open>
  \<open>handleImageUpload\<close>, with the file that was picked, if any. The reader is started and
  the file input is reset; the \<open>onload\<close> handler runs next, before any other event.
\<close>

definition handleImageUpload :: "(string \<Rightarrow> json option) \<Rightarrow> upload_env \<Rightarrow> picked option \<Rightarrow> client
    \<Rightarrow> client" where
  "handleImageUpload parse e file st =
     (case file of
        None \<Rightarrow> st
      | Some f \<Rightarrow>
          if \<not> prefix ''image/'' (pk_type f)
          then st\<lparr>alerts := alerts st @ [InvalidImage (currentLanguage st)]\<rparr>
          else if \<not> is_upload_phase (currentPhase st)
          then (addMessage ''system'' (WaitForInstructions (currentLanguage st)) st)\<lparr>imageInput := []\<rparr>
          else reader_onload parse e f (st\<lparr>imageInput := []\<rparr>))"

subsection \<open>Sessions\<close>

text \<open>What the user and the page do, one event after the other.\<close>

datatype event =
    StartReport ai_env
  | SendMessage ai_env string
  | VoiceMessage ai_env string
  | ImageUpload upload_env "picked option"
  | ManualCreateTicket create_env
  | ToggleLanguage
  | GoToLanding

fun react :: "(string \<Rightarrow> json option) \<Rightarrow> string \<Rightarrow> client \<Rightarrow> event \<Rightarrow> client" where
  "react parse prompt st (StartReport e) = startReport parse e prompt st"
| "react parse prompt st (SendMessage e typed) = sendMessage parse e typed st"
| "react parse prompt st (VoiceMessage e heard) = voiceMessage parse e heard st"
| "react parse prompt st (ImageUpload e file) = handleImageUpload parse e file st"
| "react parse prompt st (ManualCreateTicket e) = createTicketFromLLMData e st"
| "react parse prompt st ToggleLanguage = toggleLanguage st"
| "react parse prompt st GoToLanding = goToLanding st"

definition run :: "(string \<Rightarrow> json option) \<Rightarrow> string \<Rightarrow> client \<Rightarrow> event list \<Rightarrow> client" where
  "run parse prompt st evs = foldl (react parse prompt) st evs"

fun is_post :: "call \<Rightarrow> bool" where
  "is_post (PostTickets p ok) = True"
| "is_post c = False"

fun is_saved :: "call \<Rightarrow> bool" where
  "is_saved (PostTickets p ok) = ok"
| "is_saved c = False"

fun is_upload :: "call \<Rightarrow> bool" where
  "is_upload (BackendUpload n t) = True"
| "is_upload c = False"

text \<open>
  The \<open>POST /tickets\<close> requests among the calls sent so far, and those of them that
  were answered with success.
\<close>

definition posts :: "client \<Rightarrow> call list" where
  "posts st = filter is_post (calls st)"

definition saved :: "client \<Rightarrow> call list" where
  "saved st = filter is_saved (calls st)"

text \<open>
  How the state after a piece of the script relates to the state before it: once a ticket
  is created the flag stays and nothing more is posted; before that, either nothing was
  saved and the flag is still down, or exactly one post was saved and the flag is up.
\<close>

definition once :: "client \<Rightarrow> client \<Rightarrow> bool" where
  "once st st' =
     ((ticketAlreadyCreated st \<longrightarrow> ticketAlreadyCreated st' \<and> posts st' = posts st) \<and>
      (\<not> ticketAlreadyCreated st \<longrightarrow>
         (\<not> ticketAlreadyCreated st' \<and> saved st' = saved st) \<or>
         (ticketAlreadyCreated st' \<and> length (saved st') = Suc (length (saved st)))))"


text \<open>The page as the script leaves it when it is loaded.\<close>

definition page_loaded :: client where
  "page_loaded =
     \<lparr>currentLanguage = ''ar'', chatHistory = [], currentTicket = None,
      currentPhase = JStr ''greeting'', ticketData = JObj [], voiceEnabled = False,
      ticketAlreadyCreated = False, uploadedFiles = no_uploads, local_tickets = [],
      activePage = ''landingPage'', chatMessages = [], typingIndicator = False,
      attachBtn = Some ''none'', messageInput = Some (TypeYourMessage ''ar''), imageInput = [],
      alerts = [], calls = []\<rparr>"


section \<open>Sample inputs\<close>

definition io_fine :: io where
  "io_fine =
     \<lparr>read_ok = True, write_ok = True, rename_ok = (\<lambda>p. True), unlink_ok = (\<lambda>p. True),
      now = ''2025-01-01T00:00:00.000Z''\<rparr>"





definition body_full :: tickets_body where
  "body_full =
     \<lparr>b_ticket_id = Some (JStr ''T-1''), b_transcript = Some (JArr [JStr ''hello'']),
      b_extracted_data = Some (JObj [(''location'', JStr ''Riyadh'')]),
      b_description = Some (JStr ''Accident report'')\<rparr>"


definition audio_sample :: upfile where
  "audio_sample =
     \<lparr>fieldname = ''audio'', originalname = ''voice.webm'', mime = ''audio/webm'',
      up_size = 2048, stored_name = ''audio-1.webm''\<rparr>"

definition stt_sample :: stt_req where
  "stt_sample = \<lparr>stt_files = [audio_sample], stt_language = Some ''ar''\<rparr>"

definition env_no_key :: stt_env where
  "env_no_key = \<lparr>GROQ_API_KEY = None, groq = Inr ''hello''\<rparr>"

definition env_groq_down :: stt_env where
  "env_groq_down = \<lparr>GROQ_API_KEY = Some ''gsk'', groq = Inl ''Request failed with status code 503''\<rparr>"

definition big_text_file :: upfile where
  "big_text_file =
     \<lparr>fieldname = ''files'', originalname = ''notes.txt'', mime = ''text/plain'',
      up_size = 11 * 1024 * 1024, stored_name = ''u1.txt''\<rparr>"





definition upload_of :: "upfile list \<Rightarrow> upload_req" where
  "upload_of fs =
     \<lparr>up_files = fs, up_type = Some ''accident_photos'', type_before_files = True,
      up_ticket_id = None\<rparr>"




definition lib_sample :: library where
  "lib_sample =
     \<lparr>bcrypt_compare = (\<lambda>pw h. h = ''hash:'' @ pw),
      bcrypt_hash = (\<lambda>pw. ''hash:'' @ pw),
      jwt_sign = (\<lambda>c secret expiresIn clock. ''jwt-'' @ cl_username c),
      jwt_verify = (\<lambda>t secret clock.
        if t = ''jwt-admin''
        then Some \<lparr>cl_id = 1, cl_username = ''admin'', cl_role = Some ''admin''\<rparr>
        else None),
      number_text = (\<lambda>v. case v of JNum x \<Rightarrow> show_nat (nat \<lfloor>x\<rfloor>) | _ \<Rightarrow> ''Inf'')\<rparr>"

definition ticket_A :: ticket_body where
  "ticket_A =
     \<lparr>tb_ticket_id = Some ''A-1'', tb_plate = Some ''ABC1234'', tb_vehicles = Some 2,
      tb_damage = None, tb_user_id = None, tb_attachments = None\<rparr>"

definition photo_in :: attachment_in where
  "photo_in =
     \<lparr>ai_filename = Some ''u3.jpg'', ai_originalName = None, ai_filePath = None,
      ai_url = Some ''/uploads/accident_photos/u3.jpg'', ai_fileType = None,
      ai_attachmentType = None, ai_type = Some ''accident_photos'', ai_size = None\<rparr>"

definition ticket_with_photo :: ticket_body where
  "ticket_with_photo = ticket_A\<lparr>tb_attachments := Some [photo_in]\<rparr>"

definition db_with_photo :: database where
  "db_with_photo = handle lib_sample ''supersecret'' (PostTicket 1 ticket_with_photo) empty_db"

definition db_with_admin :: database where
  "db_with_admin = initializeAdminUser lib_sample ''admin'' ''1234'' empty_db"

definition login_of :: "json option \<Rightarrow> json option \<Rightarrow> login_body" where
  "login_of name pw = \<lparr>lb_username = name, lb_password = pw\<rparr>"


definition quoted :: "string \<Rightarrow> string" where
  "quoted s = CHR 0x22 # s @ [CHR 0x22]"

definition done_inner :: string where
  "done_inner = quoted ''phase'' @ '':'' @ quoted ''done''"

definition done_block :: string where
  "done_block = ''{'' @ done_inner @ ''}''"



definition create_ok :: create_env where
  "create_ok = \<lparr>date_now = 1700000000000, random = 42, post_result = PostOk None\<rparr>"

definition create_fails :: create_env where
  "create_fails = \<lparr>date_now = 1700000000000, random = 42, post_result = PostFailed\<rparr>"

definition ai_done :: "create_env \<Rightarrow> ai_env" where
  "ai_done c =
     \<lparr>config_ok = True, completion = Some (''Thanks. '' @ done_block), tts_loaded = False,
      on_done = c\<rparr>"

definition pdf_file :: picked where
  "pdf_file = \<lparr>pk_name = ''report.pdf'', pk_type = ''application/pdf'', pk_data = []\<rparr>"

definition photo_file :: picked where
  "photo_file = \<lparr>pk_name = ''crash.jpg'', pk_type = ''image/jpeg'', pk_data = []\<rparr>"

definition upload_fine :: upload_env where
  "upload_fine =
     \<lparr>upload_result = Some (''u3.jpg'', ''/uploads/accident_photos/u3.jpg''),
      then_ai = ai_done create_ok\<rparr>"

definition pdf_chosen :: client where
  "pdf_chosen = page_loaded\<lparr>imageInput := ''report.pdf''\<rparr>"

definition photo_chosen :: client where
  "photo_chosen = page_loaded\<lparr>imageInput := ''crash.jpg''\<rparr>"


section \<open>Properties of the conversation server\<close>

lemma length_update_first: "length (update_first P f xs) = length xs"
  by (induction xs) auto


lemma find_first_update_first:
  "find_first P xs = Some k \<Longrightarrow> P (f k) \<Longrightarrow> find_first P (update_first P f xs) = Some (f k)"
  by (induction xs) (auto split: if_splits)

lemma has_id_assign_body: "has_id i (assign_body b t k) = has_id i k"
  by (simp add: has_id_def assign_body_def)

lemma find_first_Some: "find_first P xs = Some k \<Longrightarrow> P k \<and> k \<in> set xs"
  by (induction xs) (auto split: if_splits)







text \<open>The rounding at some literals: \<open>0.1\<close>, \<open>1e400\<close>, \<open>1e-400\<close> and two ties.\<close>

lemma floor_rat_numeral:
  "\<lfloor>(numeral a :: rat) / numeral b\<rfloor> = numeral a div numeral b"
  "\<lfloor>(1 :: rat) / numeral b\<rfloor> = 1 div numeral b"
  using floor_divide_of_int_eq [of "numeral a" "numeral b", where ?'a = rat]
    floor_divide_of_int_eq [of 1 "numeral b", where ?'a = rat]
  by simp_all

lemmas double_simps = to_double_def nearest_def exponent_def pow2_def round_even_def Let_def
  is_double_def floor_rat_numeral

lemma to_double_tenth: "to_double (1 / 10) = JNum (3602879701896397 / 36028797018963968)"
  by (simp add: double_simps)

lemma to_double_overflow: "to_double (10 ^ 400) = JInf True"
  by (simp add: double_simps)

lemma to_double_underflow: "to_double (1 / 10 ^ 400) = JNum 0"
  by (simp add: double_simps)

lemma to_double_ties:
  "to_double 9007199254740993 = JNum 9007199254740992 \<and>
   to_double 9007199254740995 = JNum 9007199254740996"
  by (simp add: double_simps)





subsection \<open>Speech to text\<close>

text \<open>
  C8 at a concrete input. An audio file is accepted and saved to the temporary directory,
  and \<open>GROQ_API_KEY\<close> is not set. The handler answers 500 with \<open>success: false\<close> through
  the early return, which is inside the \<open>try\<close> but throws nothing, so the clean-up of the
  \<open>catch\<close> does not run: the saved file is still on disk after the request.
\<close>

theorem stt_missing_key_keeps_file:
  "status (fst (stt_route ''./uploads'' io_fine env_no_key stt_sample [])) = 500 \<and>
   \<not> success (fst (stt_route ''./uploads'' io_fine env_no_key stt_sample [])) \<and>
   message (fst (stt_route ''./uploads'' io_fine env_no_key stt_sample [])) =
     ''Groq API key not configured'' \<and>
   snd (stt_route ''./uploads'' io_fine env_no_key stt_sample []) =
     [''./uploads/temp_audio/audio-1.webm'']"
  by (simp add: stt_route_def stt_sample_def audio_sample_def env_no_key_def io_fine_def
      audioFileFilter_def allowedAudioTypes_def fileSize_def json_reply_def path_join_def Let_def
      named_def)

text \<open>
  On the path through the \<open>catch\<close>, when the transcription service throws, the saved file
  is deleted (as far as \<open>unlinkSync\<close> succeeds).
\<close>

lemma stt_catch_cleans_up:
  assumes "multer ''audio'' 1 audioFileFilter fileSize (stt_files r) = Inr (f # fs)"
    and "str_or (GROQ_API_KEY v) [] \<noteq> []" and "groq v = Inl msg"
    and "unlink_ok e (path_join d ''temp_audio'' (stored_name f))"
  shows "status (fst (stt_route d e v r disk)) = 500 \<and>
         \<not> success (fst (stt_route d e v r disk)) \<and>
         path_join d ''temp_audio'' (stored_name f) \<notin> set (snd (stt_route d e v r disk))"
  using assms by (simp add: stt_route_def unlinkSync_def json_reply_def Let_def)

lemma stt_groq_down:
  "status (fst (stt_route ''./uploads'' io_fine env_groq_down stt_sample [])) = 500 \<and>
   snd (stt_route ''./uploads'' io_fine env_groq_down stt_sample []) = []"
  by (simp add: stt_route_def stt_sample_def audio_sample_def env_groq_down_def io_fine_def
      audioFileFilter_def allowedAudioTypes_def fileSize_def json_reply_def path_join_def Let_def
      unlinkSync_def named_def)

subsection \<open>Upload validation\<close>




text \<open>
  The file filter runs before the file is streamed: a text file of 11 MB is answered with
  status 500 and the message of the filter, not with status 400.
\<close>

lemma big_text_file_is_type_error:
  "fileSize < up_size big_text_file \<and>
   status (fst (upload_route ''./uploads'' io_fine (upload_of [big_text_file]) ([], []))) = 500 \<and>
   message (fst (upload_route ''./uploads'' io_fine (upload_of [big_text_file]) ([], []))) =
     ''Invalid file type. Only images and PDF files are allowed.''"
  by (simp add: upload_route_def upload_of_def big_text_file_def fileFilter_def allowedTypes_def
      fileSize_def json_reply_def named_def)






section \<open>Properties of the SQLite backend\<close>

subsection \<open>The constraints hold in every reachable state\<close>

lemma insert_ticket_Inr:
  assumes "insert_ticket clock r db = Inr (n, db')"
  shows "\<not> ticket_exists (ticket_id r) db \<and>
         tickets db' = tickets db @ [r\<lparr>t_id := n, created_at := clock, updated_at := clock\<rparr>] \<and>
         attachments db' = attachments db \<and> conversations db' = conversations db \<and>
         findings db' = findings db \<and> audio_files db' = audio_files db \<and> users db' = users db"
  using assms by (auto simp: insert_ticket_def Let_def split: if_splits)

lemma insert_ticket_Inl:
  "insert_ticket clock r db = Inl err \<Longrightarrow> code err \<noteq> ''SQLITE_CONSTRAINT''"
  by (auto simp: insert_ticket_def Let_def split: if_splits)

lemma ticket_exists_append:
  "tickets db' = tickets db @ ts \<Longrightarrow> ticket_exists i db \<Longrightarrow> ticket_exists i db'"
  by (auto simp: ticket_exists_def)

lemma insert_ticket_consistent:
  assumes "insert_ticket clock r db = Inr (n, db')"
    and "unique_ticket_ids db" and "foreign_keys_hold db"
  shows "unique_ticket_ids db' \<and> foreign_keys_hold db'"
proof -
  from insert_ticket_Inr [OF assms(1)] have
    new: "\<not> ticket_exists (ticket_id r) db"
    and t: "tickets db' = tickets db @ [r\<lparr>t_id := n, created_at := clock, updated_at := clock\<rparr>]"
    and same: "attachments db' = attachments db" "conversations db' = conversations db"
      "findings db' = findings db" "audio_files db' = audio_files db"
    by simp_all
  from new t assms(2) have "unique_ticket_ids db'"
    by (auto simp: unique_ticket_ids_def ticket_exists_def)
  moreover from assms(3) same ticket_exists_append [OF t] have "foreign_keys_hold db'"
    by (simp add: foreign_keys_hold_def)
  ultimately show ?thesis by simp
qed

lemma attach_tickets: "tickets (attach i db a) = tickets db"
  by (auto simp: attach_def insert_attachment_def Let_def split: sum.splits if_splits)

lemma attach_consistent:
  assumes "foreign_keys_hold db"
  shows "foreign_keys_hold (attach i db a)"
proof (cases "attachment_values i a")
  case (Inl err)
  with assms show ?thesis by (simp add: attach_def)
next
  case (Inr r)
  show ?thesis
  proof (cases "ticket_exists (a_ticket_id r) db")
    case False
    with Inr assms show ?thesis by (simp add: attach_def insert_attachment_def)
  next
    case True
    with Inr have "attach i db a =
        db\<lparr>attachments := attachments db @ [r\<lparr>a_id := Suc (attachments_seq db)\<rparr>],
           attachments_seq := Suc (attachments_seq db)\<rparr>"
      by (simp add: attach_def insert_attachment_def Let_def)
    with assms True show ?thesis
      by (auto simp: foreign_keys_hold_def ticket_exists_def)
  qed
qed

lemma foldl_attach_tickets: "tickets (foldl (attach i) db as) = tickets db"
  by (induction as arbitrary: db) (simp_all add: attach_tickets)

lemma foldl_attach_consistent:
  "foreign_keys_hold db \<Longrightarrow> foreign_keys_hold (foldl (attach i) db as)"
  by (induction as arbitrary: db) (simp_all add: attach_consistent)

lemma post_ticket_consistent:
  assumes "unique_ticket_ids db" and "foreign_keys_hold db"
  shows "unique_ticket_ids (snd (post_ticket clock b db)) \<and>
         foreign_keys_hold (snd (post_ticket clock b db))"
proof (cases "or_else (tb_ticket_id b) None")
  case None
  with assms show ?thesis by (simp add: post_ticket_def)
next
  case (Some i)
  show ?thesis
  proof (cases "insert_ticket clock (ticket_values i b) db")
    case (Inl err)
    with Some assms show ?thesis by (simp add: post_ticket_def)
  next
    case (Inr p)
    obtain n db1 where p: "p = (n, db1)" by (cases p)
    from insert_ticket_consistent [OF Inr [unfolded p] assms]
    have c: "unique_ticket_ids db1" "foreign_keys_hold db1" by simp_all
    show ?thesis
    proof (cases "tb_attachments b")
      case None
      with Some Inr p c show ?thesis by (simp add: post_ticket_def)
    next
      case (Some as)
      from c have "unique_ticket_ids (foldl (attach i) db1 as)"
        by (simp add: unique_ticket_ids_def foldl_attach_tickets)
      with c foldl_attach_consistent [of db1 i as] \<open>or_else (tb_ticket_id b) None = Some i\<close> Inr p Some
      show ?thesis by (simp add: post_ticket_def Let_def)
    qed
  qed
qed

lemma delete_ticket_consistent:
  assumes "unique_ticket_ids db" and "foreign_keys_hold db"
  shows "unique_ticket_ids (snd (delete_ticket i db)) \<and> foreign_keys_hold (snd (delete_ticket i db))"
  using assms
  by (auto simp: delete_ticket_def Let_def unique_ticket_ids_def foreign_keys_hold_def
      ticket_exists_def distinct_map_filter)

lemma delete_route_consistent:
  assumes "unique_ticket_ids db" and "foreign_keys_hold db"
  shows "unique_ticket_ids (snd (delete_route lib secret clock h i db)) \<and>
         foreign_keys_hold (snd (delete_route lib secret clock h i db))"
  using assms delete_ticket_consistent [OF assms, of i]
  by (auto simp: delete_route_def Let_def split: sum.splits prod.splits)

lemma ticket_exists_ids:
  "ticket_exists i db = (i \<in> set (map ticket_id (tickets db)))"
  by (simp add: ticket_exists_def)

lemma same_ids_consistent:
  assumes "map ticket_id (tickets db') = map ticket_id (tickets db)"
    and "attachments db' = attachments db" and "conversations db' = conversations db"
    and "findings db' = findings db" and "audio_files db' = audio_files db"
    and "unique_ticket_ids db" and "foreign_keys_hold db"
  shows "unique_ticket_ids db' \<and> foreign_keys_hold db'"
proof -
  from assms(1) have "\<And>i. ticket_exists i db' = ticket_exists i db"
    by (simp only: ticket_exists_ids)
  with assms show ?thesis
    by (simp add: unique_ticket_ids_def foreign_keys_hold_def)
qed

lemma put_ticket_consistent:
  assumes "unique_ticket_ids db" and "foreign_keys_hold db"
  shows "unique_ticket_ids (snd (put_ticket lib secret clock h i b db)) \<and>
         foreign_keys_hold (snd (put_ticket lib secret clock h i b db))"
proof -
  let ?f = "\<lambda>t. if ticket_id t = i then update_ticket clock b t else t"
  have "ticket_id (?f t) = ticket_id t" for t
    by (simp add: update_ticket_def)
  then have "map ticket_id (map ?f (tickets db)) = map ticket_id (tickets db)"
    by (simp add: comp_def del: if_distrib)
  then have "unique_ticket_ids (db\<lparr>tickets := map ?f (tickets db)\<rparr>) \<and>
        foreign_keys_hold (db\<lparr>tickets := map ?f (tickets db)\<rparr>)"
    using assms by (intro same_ids_consistent [of _ db]) simp_all
  with assms show ?thesis
    by (simp add: put_ticket_def Let_def split: sum.splits option.splits)
qed

lemma child_insert_consistent:
  "foreign_keys_hold db \<Longrightarrow> insert_conversation c db = Inr (n, db') \<Longrightarrow>
     foreign_keys_hold db' \<and> tickets db' = tickets db"
  "foreign_keys_hold db \<Longrightarrow> insert_finding f db = Inr (n, db') \<Longrightarrow>
     foreign_keys_hold db' \<and> tickets db' = tickets db"
  "foreign_keys_hold db \<Longrightarrow> insert_audio a db = Inr (n, db') \<Longrightarrow>
     foreign_keys_hold db' \<and> tickets db' = tickets db"
  by (auto simp: insert_conversation_def insert_finding_def insert_audio_def Let_def
      foreign_keys_hold_def ticket_exists_def split: if_splits)

lemma post_conversation_consistent:
  assumes "unique_ticket_ids db" and "foreign_keys_hold db"
  shows "unique_ticket_ids (snd (post_conversation i b db)) \<and>
         foreign_keys_hold (snd (post_conversation i b db))"
proof (cases "or_else (cb_role b) None")
  case None
  with assms show ?thesis by (simp add: post_conversation_def)
next
  case r: (Some r)
  show ?thesis
  proof (cases "or_else (cb_content b) None")
    case None
    with r assms show ?thesis by (simp add: post_conversation_def)
  next
    case c: (Some c)
    let ?row = "\<lparr>c_id = 0, c_ticket_id = i, c_role = r, c_content = c,
                  c_audio_path = or_else (cb_audio_path b) None,
                  c_transcription = or_else (cb_transcription b) None\<rparr>"
    show ?thesis
    proof (cases "insert_conversation ?row db")
      case (Inl err)
      with r c assms show ?thesis by (simp add: post_conversation_def)
    next
      case (Inr p)
      obtain n db' where p: "p = (n, db')" by (cases p)
      from child_insert_consistent(1) [OF assms(2) Inr [unfolded p]] assms(1) r c Inr p
      show ?thesis by (simp add: post_conversation_def unique_ticket_ids_def)
    qed
  qed
qed

lemma post_finding_consistent:
  assumes "unique_ticket_ids db" and "foreign_keys_hold db"
  shows "unique_ticket_ids (snd (post_finding i b db)) \<and>
         foreign_keys_hold (snd (post_finding i b db))"
proof (cases "or_else (fb_field_name b) None")
  case None
  with assms show ?thesis by (simp add: post_finding_def)
next
  case (Some fld)
  let ?row = "\<lparr>f_id = 0, f_ticket_id = i, field_name = fld,
                field_value = or_else (fb_field_value b) None,
                confidence = (case fb_confidence b of
                                None \<Rightarrow> None
                              | Some n \<Rightarrow> if n = 0 then None else Some n),
                source = Some (str_or (fb_source b) ''manual'')\<rparr>"
  show ?thesis
  proof (cases "insert_finding ?row db")
    case (Inl err)
    with Some assms show ?thesis by (simp add: post_finding_def)
  next
    case (Inr p)
    obtain n db' where p: "p = (n, db')" by (cases p)
    from child_insert_consistent(2) [OF assms(2) Inr [unfolded p]] assms(1) Some Inr p
    show ?thesis by (simp add: post_finding_def unique_ticket_ids_def)
  qed
qed

lemma upload_audio_consistent:
  assumes "unique_ticket_ids db" and "foreign_keys_hold db"
  shows "unique_ticket_ids (snd (upload_audio i fn mt dur db)) \<and>
         foreign_keys_hold (snd (upload_audio i fn mt dur db))"
proof (cases "or_else i None")
  case None
  with assms show ?thesis by (simp add: upload_audio_def)
next
  case (Some k)
  let ?row = "\<lparr>au_id = 0, au_ticket_id = k, au_file_path = fn, au_file_type = Some mt,
                duration = (case dur of None \<Rightarrow> None | Some n \<Rightarrow> if n = 0 then None else Some n)\<rparr>"
  show ?thesis
  proof (cases "insert_audio ?row db")
    case (Inl err)
    with Some assms show ?thesis by (simp add: upload_audio_def)
  next
    case (Inr p)
    obtain n db' where p: "p = (n, db')" by (cases p)
    from child_insert_consistent(3) [OF assms(2) Inr [unfolded p]] assms(1) Some Inr p
    show ?thesis by (simp add: upload_audio_def unique_ticket_ids_def)
  qed
qed

lemma transcribe_consistent:
  assumes "unique_ticket_ids db" and "foreign_keys_hold db"
  shows "unique_ticket_ids (snd (transcribe i fn mt outcome db)) \<and>
         foreign_keys_hold (snd (transcribe i fn mt outcome db))"
proof (cases outcome)
  case (Inl msg)
  with assms show ?thesis by (simp add: transcribe_def)
next
  case (Inr heard)
  show ?thesis
  proof (cases "or_else i None")
    case None
    with Inr assms show ?thesis by (simp add: transcribe_def)
  next
    case (Some k)
    let ?a = "\<lparr>au_id = 0, au_ticket_id = k, au_file_path = fn, au_file_type = Some mt,
                duration = None\<rparr>"
    let ?c = "\<lparr>c_id = 0, c_ticket_id = k, c_role = ''user'', c_content = heard,
                c_audio_path = Some fn, c_transcription = Some heard\<rparr>"
    show ?thesis
    proof (cases "insert_audio ?a db")
      case (Inl err)
      with Inr Some assms show ?thesis by (simp add: transcribe_def)
    next
      case a: (Inr p)
      obtain n db1 where p: "p = (n, db1)" by (cases p)
      from child_insert_consistent(3) [OF assms(2) a [unfolded p]]
      have c1: "foreign_keys_hold db1" "tickets db1 = tickets db" by simp_all
      show ?thesis
      proof (cases "insert_conversation ?c db1")
        case (Inl err)
        with Inr Some a p c1 assms show ?thesis
          by (simp add: transcribe_def unique_ticket_ids_def)
      next
        case c: (Inr q)
        obtain m db2 where q: "q = (m, db2)" by (cases q)
        from child_insert_consistent(1) [OF c1(1) c [unfolded q]]
        have "foreign_keys_hold db2" "tickets db2 = tickets db1" by simp_all
        with Inr Some a p c q c1 assms show ?thesis
          by (simp add: transcribe_def unique_ticket_ids_def)
      qed
    qed
  qed
qed

lemma delete_audio_consistent:
  assumes "unique_ticket_ids db" and "foreign_keys_hold db"
  shows "unique_ticket_ids (snd (delete_audio on_disk fn db)) \<and>
         foreign_keys_hold (snd (delete_audio on_disk fn db))"
  using assms
  by (auto simp: delete_audio_def unique_ticket_ids_def foreign_keys_hold_def ticket_exists_def)

lemma login_tables:
  "tickets (snd (login lib secret clock b db)) = tickets db \<and>
   attachments (snd (login lib secret clock b db)) = attachments db \<and>
   conversations (snd (login lib secret clock b db)) = conversations db \<and>
   findings (snd (login lib secret clock b db)) = findings db \<and>
   audio_files (snd (login lib secret clock b db)) = audio_files db"
  by (auto simp: login_def Let_def split: option.splits json.splits)

lemma login_consistent:
  assumes "unique_ticket_ids db" and "foreign_keys_hold db"
  shows "unique_ticket_ids (snd (login lib secret clock b db)) \<and>
         foreign_keys_hold (snd (login lib secret clock b db))"
  using assms login_tables [of lib secret clock b db]
  by (simp add: unique_ticket_ids_def foreign_keys_hold_def ticket_exists_def)

lemma initializeAdminUser_consistent:
  assumes "unique_ticket_ids db" and "foreign_keys_hold db"
  shows "unique_ticket_ids (initializeAdminUser lib name pw db) \<and>
         foreign_keys_hold (initializeAdminUser lib name pw db)"
  using assms
  by (auto simp: initializeAdminUser_def Let_def unique_ticket_ids_def foreign_keys_hold_def
      ticket_exists_def split: option.splits)

lemma insert_or_ignore_consistent:
  assumes "unique_ticket_ids db \<and> foreign_keys_hold db"
  shows "unique_ticket_ids (insert_or_ignore clock db r) \<and>
         foreign_keys_hold (insert_or_ignore clock db r)"
proof (cases "insert_ticket clock r db")
  case (Inl err)
  with assms show ?thesis by (simp add: insert_or_ignore_def)
next
  case (Inr p)
  obtain n db' where p: "p = (n, db')" by (cases p)
  from insert_ticket_consistent [OF Inr [unfolded p]] assms Inr p show ?thesis
    by (simp add: insert_or_ignore_def)
qed

lemma foldl_insert_or_ignore_consistent:
  "unique_ticket_ids db \<and> foreign_keys_hold db \<Longrightarrow>
   unique_ticket_ids (foldl (insert_or_ignore clock) db rs) \<and>
   foreign_keys_hold (foldl (insert_or_ignore clock) db rs)"
proof (induction rs arbitrary: db)
  case Nil
  then show ?case by simp
next
  case (Cons r rs)
  from Cons.IH [OF insert_or_ignore_consistent [OF Cons.prems]] show ?case by simp
qed

lemma handle_consistent:
  assumes "unique_ticket_ids db" and "foreign_keys_hold db"
  shows "unique_ticket_ids (handle lib secret r db) \<and> foreign_keys_hold (handle lib secret r db)"
proof (cases r)
  case (PostTicket clock b)
  with post_ticket_consistent [OF assms] show ?thesis by simp
next
  case (PutTicket clock h i b)
  with put_ticket_consistent [OF assms] show ?thesis by simp
next
  case (DeleteTicket clock h i)
  with delete_route_consistent [OF assms] show ?thesis by simp
next
  case (PostConversation i b)
  with post_conversation_consistent [OF assms] show ?thesis by simp
next
  case (PostFinding i b)
  with post_finding_consistent [OF assms] show ?thesis by simp
next
  case (UploadAudio i fn mt dur)
  with upload_audio_consistent [OF assms] show ?thesis by simp
next
  case (Transcribe i fn mt outcome)
  with transcribe_consistent [OF assms] show ?thesis by simp
next
  case (DeleteAudio on_disk fn)
  with delete_audio_consistent [OF assms] show ?thesis by simp
next
  case (Login clock b)
  with login_consistent [OF assms] show ?thesis by simp
next
  case (InitDb clock name pw)
  from initializeAdminUser_consistent [OF assms, of lib name pw]
  have "unique_ticket_ids (initializeAdminUser lib name pw db) \<and>
        foreign_keys_hold (initializeAdminUser lib name pw db)" .
  from foldl_insert_or_ignore_consistent [OF this] InitDb show ?thesis
    by (simp add: createSampleData_def)
qed

lemma reachable_consistent:
  "reachable lib secret db \<Longrightarrow> unique_ticket_ids db \<and> foreign_keys_hold db"
proof (induction rule: reachable.induct)
  case start
  show ?case
    by (simp add: empty_db_def unique_ticket_ids_def foreign_keys_hold_def)
next
  case (step db r)
  then show ?case using handle_consistent by blast
qed


subsection \<open>Duplicate ticket ids\<close>

text \<open>
  A second ticket with a stored \<open>ticket_id\<close> is not inserted. The error that the driver
  throws has the code \<open>SQLITE_CONSTRAINT_UNIQUE\<close>, which is not the string that the route
  compares with, so the branch that answers 409 is never taken.
\<close>

lemma post_ticket_duplicate:
  assumes "tb_ticket_id b = Some i" and "i \<noteq> []" and "ticket_exists i db"
  shows "post_ticket clock b db =
           ((api_json 500 False ''Error creating ticket'')
              \<lparr>a_error := Some ''UNIQUE constraint failed: tickets.ticket_id''\<rparr>, db)"
  using assms by (simp add: post_ticket_def insert_ticket_def ticket_values_def)

lemma post_ticket_never_409: "a_status (fst (post_ticket clock b db)) \<noteq> 409"
proof (cases "or_else (tb_ticket_id b) None")
  case None
  then show ?thesis by (simp add: post_ticket_def api_json_def)
next
  case (Some i)
  show ?thesis
  proof (cases "insert_ticket clock (ticket_values i b) db")
    case (Inl err)
    with Some insert_ticket_Inl [OF Inl] show ?thesis
      by (simp add: post_ticket_def api_json_def)
  next
    case (Inr p)
    with Some show ?thesis
      by (cases p) (simp add: post_ticket_def api_json_def Let_def)
  qed
qed

text \<open>
  C1 at a concrete input: the ticket \<open>A-1\<close> is posted twice. The second request inserts
  no row, as the claim says, and is answered with status 500 and the message
  \<open>Error creating ticket\<close>, where the claim says 409 and \<open>Ticket ID already exists\<close>.
\<close>

theorem duplicate_ticket_id_gets_500:
  "ticket_exists ''A-1'' (snd (post_ticket 1 ticket_A empty_db)) \<and>
   a_status (fst (post_ticket 2 ticket_A (snd (post_ticket 1 ticket_A empty_db)))) = 500 \<and>
   a_message (fst (post_ticket 2 ticket_A (snd (post_ticket 1 ticket_A empty_db)))) =
     ''Error creating ticket'' \<and>
   snd (post_ticket 2 ticket_A (snd (post_ticket 1 ticket_A empty_db))) =
     snd (post_ticket 1 ticket_A empty_db)"
proof -
  have first: "ticket_exists ''A-1'' (snd (post_ticket 1 ticket_A empty_db))"
    by (simp add: post_ticket_def insert_ticket_def ticket_values_def ticket_A_def empty_db_def
        ticket_exists_def Let_def)
  have "tb_ticket_id ticket_A = Some ''A-1''" by (simp add: ticket_A_def)
  from post_ticket_duplicate [OF this _ first, of 2] first show ?thesis
    by (simp add: api_json_def)
qed


subsection \<open>Attachments and the deletion of tickets\<close>

lemma delete_ticket_missing:
  "\<not> ticket_exists i db \<Longrightarrow> delete_ticket i db = (0, db)"
  by (auto simp: delete_ticket_def ticket_exists_def filter_empty_conv)

lemma delete_ticket_present:
  assumes "ticket_exists i db"
  shows "fst (delete_ticket i db) \<noteq> 0 \<and>
         snd (delete_ticket i db) =
           db\<lparr>tickets := filter (\<lambda>t. ticket_id t \<noteq> i) (tickets db),
              conversations := filter (\<lambda>c. c_ticket_id c \<noteq> i) (conversations db),
              findings := filter (\<lambda>f. f_ticket_id f \<noteq> i) (findings db),
              audio_files := filter (\<lambda>a. au_ticket_id a \<noteq> i) (audio_files db),
              attachments := filter (\<lambda>a. a_ticket_id a \<noteq> i) (attachments db)\<rparr>"
proof -
  from assms have "filter (\<lambda>t. ticket_id t = i) (tickets db) \<noteq> []"
    by (auto simp: ticket_exists_def filter_empty_conv)
  then show ?thesis by (simp add: delete_ticket_def Let_def)
qed

text \<open>
  C5. In every reachable state each attachment names an existing ticket. For a request
  that carries the token of an admin, \<open>DELETE /api/tickets/:ticketId\<close> on an existing
  ticket answers 200 and removes the ticket together with all of its attachments,
  conversations, findings and audio files, leaving the rows of other tickets; on a ticket
  that does not exist it answers 404 and changes nothing.
\<close>

theorem attachments_reference_tickets:
  assumes "reachable lib secret db"
    and "verifyToken lib secret clock authorization = Inr c" and "cl_role c = Some ''admin''"
  shows "(\<forall>a \<in> set (attachments db). ticket_exists (a_ticket_id a) db) \<and>
         (ticket_exists i db \<longrightarrow>
            fst (delete_route lib secret clock authorization i db) =
              api_json 200 True ''Ticket deleted successfully'' \<and>
            \<not> ticket_exists i (snd (delete_route lib secret clock authorization i db)) \<and>
            tickets (snd (delete_route lib secret clock authorization i db)) =
              filter (\<lambda>t. ticket_id t \<noteq> i) (tickets db) \<and>
            attachments (snd (delete_route lib secret clock authorization i db)) =
              filter (\<lambda>a. a_ticket_id a \<noteq> i) (attachments db) \<and>
            conversations (snd (delete_route lib secret clock authorization i db)) =
              filter (\<lambda>c. c_ticket_id c \<noteq> i) (conversations db) \<and>
            findings (snd (delete_route lib secret clock authorization i db)) =
              filter (\<lambda>f. f_ticket_id f \<noteq> i) (findings db) \<and>
            audio_files (snd (delete_route lib secret clock authorization i db)) =
              filter (\<lambda>a. au_ticket_id a \<noteq> i) (audio_files db)) \<and>
         (\<not> ticket_exists i db \<longrightarrow>
            delete_route lib secret clock authorization i db =
              (api_json 404 False ''Ticket not found'', db))"
proof (intro conjI impI)
  from reachable_consistent [OF assms(1)]
  show "\<forall>a \<in> set (attachments db). ticket_exists (a_ticket_id a) db"
    by (simp add: foreign_keys_hold_def)
next
  assume "\<not> ticket_exists i db"
  from delete_ticket_missing [OF this] assms(2,3)
  show "delete_route lib secret clock authorization i db =
          (api_json 404 False ''Ticket not found'', db)"
    by (simp add: delete_route_def)
next
  assume e: "ticket_exists i db"
  obtain n db' where d: "delete_ticket i db = (n, db')" by (cases "delete_ticket i db")
  from delete_ticket_present [OF e] d have n: "n \<noteq> 0"
    and db': "db' = db\<lparr>tickets := filter (\<lambda>t. ticket_id t \<noteq> i) (tickets db),
              conversations := filter (\<lambda>c. c_ticket_id c \<noteq> i) (conversations db),
              findings := filter (\<lambda>f. f_ticket_id f \<noteq> i) (findings db),
              audio_files := filter (\<lambda>a. au_ticket_id a \<noteq> i) (audio_files db),
              attachments := filter (\<lambda>a. a_ticket_id a \<noteq> i) (attachments db)\<rparr>"
    by simp_all
  from d n assms(2,3) have r: "delete_route lib secret clock authorization i db =
      (api_json 200 True ''Ticket deleted successfully'', db')"
    by (simp add: delete_route_def)
  show "fst (delete_route lib secret clock authorization i db) =
          api_json 200 True ''Ticket deleted successfully''"
    by (simp add: r)
  show "\<not> ticket_exists i (snd (delete_route lib secret clock authorization i db))"
    by (auto simp: r db' ticket_exists_def)
  show "tickets (snd (delete_route lib secret clock authorization i db)) =
          filter (\<lambda>t. ticket_id t \<noteq> i) (tickets db)"
    by (simp add: r db')
  show "attachments (snd (delete_route lib secret clock authorization i db)) =
          filter (\<lambda>a. a_ticket_id a \<noteq> i) (attachments db)"
    by (simp add: r db')
  show "conversations (snd (delete_route lib secret clock authorization i db)) =
          filter (\<lambda>c. c_ticket_id c \<noteq> i) (conversations db)"
    by (simp add: r db')
  show "findings (snd (delete_route lib secret clock authorization i db)) =
          filter (\<lambda>f. f_ticket_id f \<noteq> i) (findings db)"
    by (simp add: r db')
  show "audio_files (snd (delete_route lib secret clock authorization i db)) =
          filter (\<lambda>a. au_ticket_id a \<noteq> i) (audio_files db)"
    by (simp add: r db')
qed

lemma db_with_photo_eval:
  "tickets db_with_photo =
     [\<lparr>t_id = 1, ticket_id = ''A-1'', user_id = None, plate = Some ''ABC1234'',
       vehicles = Some 2, damage = None, t_status = Some ''open'', created_at = 1,
       updated_at = 1\<rparr>] \<and>
   attachments db_with_photo =
     [\<lparr>a_id = 1, a_ticket_id = ''A-1'', a_filename = ''u3.jpg'', original_name = ''u3.jpg'',
       a_file_path = ''/uploads/accident_photos/u3.jpg'', a_file_type = ''image/jpeg'',
       attachment_type = Some ''accident_photos'', a_size = Some 0\<rparr>]"
  by (simp add: db_with_photo_def post_ticket_def insert_ticket_def ticket_values_def
      ticket_with_photo_def ticket_A_def photo_in_def empty_db_def ticket_exists_def Let_def
      attach_def attachment_values_def insert_attachment_def)

theorem attachments_reference_tickets_witness:
  "reachable lib_sample ''supersecret'' db_with_photo \<and>
   verifyToken lib_sample ''supersecret'' 5 (Some ''Bearer jwt-admin'') =
     Inr \<lparr>cl_id = 1, cl_username = ''admin'', cl_role = Some ''admin''\<rparr> \<and>
   ticket_exists ''A-1'' db_with_photo \<and>
   length (attachments db_with_photo) = 1 \<and>
   ticket_exists (a_ticket_id (hd (attachments db_with_photo))) db_with_photo \<and>
   fst (delete_route lib_sample ''supersecret'' 5 (Some ''Bearer jwt-admin'') ''A-1'' db_with_photo)
     = api_json 200 True ''Ticket deleted successfully'' \<and>
   tickets (snd (delete_route lib_sample ''supersecret'' 5 (Some ''Bearer jwt-admin'') ''A-1''
     db_with_photo)) = [] \<and>
   attachments (snd (delete_route lib_sample ''supersecret'' 5 (Some ''Bearer jwt-admin'') ''A-1''
     db_with_photo)) = [] \<and>
   delete_route lib_sample ''supersecret'' 5 (Some ''Bearer jwt-admin'') ''A-2'' db_with_photo =
     (api_json 404 False ''Ticket not found'', db_with_photo)"
proof -
  have r: "reachable lib_sample ''supersecret'' db_with_photo"
    unfolding db_with_photo_def by (rule reachable.step [OF reachable.start])
  have v: "verifyToken lib_sample ''supersecret'' 5 (Some ''Bearer jwt-admin'') =
      Inr \<lparr>cl_id = 1, cl_username = ''admin'', cl_role = Some ''admin''\<rparr>"
    by (simp add: verifyToken_def lib_sample_def)
  have a: "cl_role \<lparr>cl_id = 1, cl_username = ''admin'', cl_role = Some ''admin''\<rparr> = Some ''admin''"
    by simp
  have e: "ticket_exists ''A-1'' db_with_photo" and n: "\<not> ticket_exists ''A-2'' db_with_photo"
    and l: "length (attachments db_with_photo) = 1"
    by (simp_all add: ticket_exists_def db_with_photo_eval)
  from attachments_reference_tickets [OF r v a, of "''A-1''"]
    attachments_reference_tickets [OF r v a, of "''A-2''"] e n l r v
  show ?thesis by (simp add: db_with_photo_eval)
qed


subsection \<open>Login\<close>

lemma db_with_admin_users:
  "users db_with_admin =
     [\<lparr>u_id = 1, username = ''admin'', password_hash = ''hash:1234'', role = Some ''admin'',
       last_login = None\<rparr>]"
  by (simp add: db_with_admin_def initializeAdminUser_def empty_db_def lib_sample_def Let_def)

text \<open>
  C7, as stated, at a concrete input: the stored user \<open>admin\<close> with a wrong password that
  is sent as the number \<open>9999\<close>. Both fields are there, the username exists and the
  password does not match, and the answer is 500 with \<open>Server error during login\<close>, not
  the 401 of the claim: \<open>bcrypt.compare\<close> rejects a password that is no string, and the
  handler catches that.
\<close>

theorem numeric_password_gets_500:
  "user_named lib_sample (JStr ''admin'') db_with_admin \<noteq> None \<and>
   truthy (JNum 9999) \<and>
   login lib_sample ''supersecret'' 7 (login_of (Some (JStr ''admin'')) (Some (JNum 9999)))
     db_with_admin = (api_json 500 False ''Server error during login'', db_with_admin)"
  by (simp add: db_with_admin_users login_def login_of_def)

text \<open>
  C7, amended. A request without a username or without a password (absent or falsy) is
  answered 400. A request whose username and password are non-empty strings succeeds
  exactly when the username is stored and the password matches the stored hash, and then
  carries, with status 200, the token signed for the id, name and role of the user with
  expiry \<open>24h\<close>; when the username is unknown or the password does not match it is
  answered 401 with \<open>Invalid username or password\<close>, no token, and the database as
  before. A request with a stored username and a truthy password that is no string is
  answered 500 with \<open>Server error during login\<close>, and the database is as before.
\<close>

theorem login_token_issuance:
  "(\<not> truthy_opt (lb_username b) \<or> \<not> truthy_opt (lb_password b) \<longrightarrow>
      login lib secret clock b db = (api_json 400 False ''Username and password are required'', db)) \<and>
   (lb_username b = Some (JStr name) \<and> name \<noteq> [] \<and> lb_password b = Some (JStr pw) \<and> pw \<noteq> [] \<longrightarrow>
      (a_success (fst (login lib secret clock b db)) \<longleftrightarrow>
         (\<exists>u. find_first (\<lambda>u. username u = name) (users db) = Some u \<and>
              bcrypt_compare lib pw (password_hash u))) \<and>
      (\<forall>u. find_first (\<lambda>u. username u = name) (users db) = Some u \<and>
           bcrypt_compare lib pw (password_hash u) \<longrightarrow>
           a_status (fst (login lib secret clock b db)) = 200 \<and>
           a_token (fst (login lib secret clock b db)) =
             Some (jwt_sign lib \<lparr>cl_id = u_id u, cl_username = username u, cl_role = role u\<rparr>
                     secret ''24h'' clock)) \<and>
      (find_first (\<lambda>u. username u = name) (users db) = None \<or>
       (\<exists>u. find_first (\<lambda>u. username u = name) (users db) = Some u \<and>
            \<not> bcrypt_compare lib pw (password_hash u)) \<longrightarrow>
         login lib secret clock b db = (api_json 401 False ''Invalid username or password'', db))) \<and>
   (lb_username b = Some (JStr name) \<and> name \<noteq> [] \<and> lb_password b = Some given \<and> truthy given \<and>
    (\<forall>pw. given \<noteq> JStr pw) \<and> find_first (\<lambda>u. username u = name) (users db) \<noteq> None \<longrightarrow>
      login lib secret clock b db = (api_json 500 False ''Server error during login'', db))"
proof (intro conjI impI)
  assume "\<not> truthy_opt (lb_username b) \<or> \<not> truthy_opt (lb_password b)"
  then show "login lib secret clock b db =
      (api_json 400 False ''Username and password are required'', db)"
    by (auto simp: login_def)
next
  assume a: "lb_username b = Some (JStr name) \<and> name \<noteq> [] \<and> lb_password b = Some (JStr pw) \<and>
    pw \<noteq> []"
  show "a_success (fst (login lib secret clock b db)) \<longleftrightarrow>
         (\<exists>u. find_first (\<lambda>u. username u = name) (users db) = Some u \<and>
              bcrypt_compare lib pw (password_hash u))"
    using a by (simp add: login_def api_json_def Let_def split: option.splits)
next
  assume a: "lb_username b = Some (JStr name) \<and> name \<noteq> [] \<and> lb_password b = Some (JStr pw) \<and>
    pw \<noteq> []"
  show "\<forall>u. find_first (\<lambda>u. username u = name) (users db) = Some u \<and>
           bcrypt_compare lib pw (password_hash u) \<longrightarrow>
           a_status (fst (login lib secret clock b db)) = 200 \<and>
           a_token (fst (login lib secret clock b db)) =
             Some (jwt_sign lib \<lparr>cl_id = u_id u, cl_username = username u, cl_role = role u\<rparr>
                     secret ''24h'' clock)"
    using a by (simp add: login_def api_json_def Let_def)
next
  assume a: "lb_username b = Some (JStr name) \<and> name \<noteq> [] \<and> lb_password b = Some (JStr pw) \<and>
    pw \<noteq> []"
  assume "find_first (\<lambda>u. username u = name) (users db) = None \<or>
       (\<exists>u. find_first (\<lambda>u. username u = name) (users db) = Some u \<and>
            \<not> bcrypt_compare lib pw (password_hash u))"
  then show "login lib secret clock b db =
      (api_json 401 False ''Invalid username or password'', db)"
    using a by (auto simp: login_def)
next
  assume a: "lb_username b = Some (JStr name) \<and> name \<noteq> [] \<and> lb_password b = Some given \<and>
    truthy given \<and> (\<forall>pw. given \<noteq> JStr pw) \<and>
    find_first (\<lambda>u. username u = name) (users db) \<noteq> None"
  then show "login lib secret clock b db = (api_json 500 False ''Server error during login'', db)"
    by (cases given) (auto simp: login_def)
qed

theorem login_token_issuance_witness:
  "a_success (fst (login lib_sample ''supersecret'' 7
     (login_of (Some (JStr ''admin'')) (Some (JStr ''1234''))) db_with_admin)) \<and>
   a_token (fst (login lib_sample ''supersecret'' 7
     (login_of (Some (JStr ''admin'')) (Some (JStr ''1234''))) db_with_admin)) = Some ''jwt-admin'' \<and>
   login lib_sample ''supersecret'' 7 (login_of (Some (JStr ''admin'')) (Some (JStr ''0000'')))
     db_with_admin = (api_json 401 False ''Invalid username or password'', db_with_admin) \<and>
   login lib_sample ''supersecret'' 7 (login_of (Some (JStr ''ghost'')) (Some (JStr ''1234'')))
     db_with_admin = (api_json 401 False ''Invalid username or password'', db_with_admin) \<and>
   login lib_sample ''supersecret'' 7 (login_of None (Some (JStr ''1234''))) db_with_admin =
     (api_json 400 False ''Username and password are required'', db_with_admin) \<and>
   login lib_sample ''supersecret'' 7 (login_of (Some (JStr ''admin'')) (Some (JBool True)))
     db_with_admin = (api_json 500 False ''Server error during login'', db_with_admin)"
proof -
  let ?admin = "\<lparr>u_id = 1, username = ''admin'', password_hash = ''hash:1234'',
    role = Some ''admin'', last_login = None\<rparr>"
  note t = login_token_issuance [of _ lib_sample "''supersecret''" 7 db_with_admin]
  have stored: "find_first (\<lambda>u. username u = ''admin'') (users db_with_admin) = Some ?admin"
    by (simp add: db_with_admin_users)
  have matches: "bcrypt_compare lib_sample ''1234'' (password_hash ?admin)"
    by (simp add: lib_sample_def)
  have differs: "\<not> bcrypt_compare lib_sample ''0000'' (password_hash ?admin)"
    by (simp add: lib_sample_def)
  have signed: "jwt_sign lib_sample
      \<lparr>cl_id = u_id ?admin, cl_username = username ?admin, cl_role = role ?admin\<rparr>
      ''supersecret'' ''24h'' 7 = ''jwt-admin''"
    by (simp add: lib_sample_def)
  have a1: "lb_username (login_of (Some (JStr ''admin'')) (Some (JStr ''1234''))) =
      Some (JStr ''admin'') \<and> ''admin'' \<noteq> [] \<and>
      lb_password (login_of (Some (JStr ''admin'')) (Some (JStr ''1234''))) =
      Some (JStr ''1234'') \<and> ''1234'' \<noteq> []"
    by (simp add: login_of_def)
  from t [of "login_of (Some (JStr ''admin'')) (Some (JStr ''1234''))" "''admin''" "''1234''" JNull]
    a1 stored matches
  have "a_success (fst (login lib_sample ''supersecret'' 7
        (login_of (Some (JStr ''admin'')) (Some (JStr ''1234''))) db_with_admin)) \<and>
      a_token (fst (login lib_sample ''supersecret'' 7
        (login_of (Some (JStr ''admin'')) (Some (JStr ''1234''))) db_with_admin)) =
      Some (jwt_sign lib_sample
        \<lparr>cl_id = u_id ?admin, cl_username = username ?admin, cl_role = role ?admin\<rparr>
        ''supersecret'' ''24h'' 7)"
    by blast
  with signed
  have good: "a_success (fst (login lib_sample ''supersecret'' 7
        (login_of (Some (JStr ''admin'')) (Some (JStr ''1234''))) db_with_admin)) \<and>
      a_token (fst (login lib_sample ''supersecret'' 7
        (login_of (Some (JStr ''admin'')) (Some (JStr ''1234''))) db_with_admin)) = Some ''jwt-admin''"
    by simp
  have a2: "lb_username (login_of (Some (JStr ''admin'')) (Some (JStr ''0000''))) =
      Some (JStr ''admin'') \<and> ''admin'' \<noteq> [] \<and>
      lb_password (login_of (Some (JStr ''admin'')) (Some (JStr ''0000''))) =
      Some (JStr ''0000'') \<and> ''0000'' \<noteq> []"
    by (simp add: login_of_def)
  from t [of "login_of (Some (JStr ''admin'')) (Some (JStr ''0000''))" "''admin''" "''0000''" JNull]
    a2 stored differs
  have wrong: "login lib_sample ''supersecret'' 7
      (login_of (Some (JStr ''admin'')) (Some (JStr ''0000''))) db_with_admin =
      (api_json 401 False ''Invalid username or password'', db_with_admin)"
    by blast
  have a3: "lb_username (login_of (Some (JStr ''ghost'')) (Some (JStr ''1234''))) =
      Some (JStr ''ghost'') \<and> ''ghost'' \<noteq> [] \<and>
      lb_password (login_of (Some (JStr ''ghost'')) (Some (JStr ''1234''))) =
      Some (JStr ''1234'') \<and> ''1234'' \<noteq> []"
    by (simp add: login_of_def)
  have nobody: "find_first (\<lambda>u. username u = ''ghost'') (users db_with_admin) = None"
    by (simp add: db_with_admin_users)
  from t [of "login_of (Some (JStr ''ghost'')) (Some (JStr ''1234''))" "''ghost''" "''1234''" JNull]
    a3 nobody
  have unknown: "login lib_sample ''supersecret'' 7
      (login_of (Some (JStr ''ghost'')) (Some (JStr ''1234''))) db_with_admin =
      (api_json 401 False ''Invalid username or password'', db_with_admin)"
    by blast
  have a4: "\<not> truthy_opt (lb_username (login_of None (Some (JStr ''1234''))))"
    by (simp add: login_of_def)
  from t [of "login_of None (Some (JStr ''1234''))" "''admin''" "''1234''" JNull] a4
  have missing: "login lib_sample ''supersecret'' 7 (login_of None (Some (JStr ''1234'')))
      db_with_admin = (api_json 400 False ''Username and password are required'', db_with_admin)"
    by blast
  have a5: "lb_username (login_of (Some (JStr ''admin'')) (Some (JBool True))) =
      Some (JStr ''admin'') \<and> ''admin'' \<noteq> [] \<and>
      lb_password (login_of (Some (JStr ''admin'')) (Some (JBool True))) = Some (JBool True) \<and>
      truthy (JBool True) \<and> (\<forall>pw. JBool True \<noteq> JStr pw) \<and>
      find_first (\<lambda>u. username u = ''admin'') (users db_with_admin) \<noteq> None"
    using stored by (simp add: login_of_def)
  from t [of "login_of (Some (JStr ''admin'')) (Some (JBool True))" "''admin''" "''1234''"
      "JBool True"] a5
  have thrown: "login lib_sample ''supersecret'' 7
      (login_of (Some (JStr ''admin'')) (Some (JBool True))) db_with_admin =
      (api_json 500 False ''Server error during login'', db_with_admin)"
    by blast
  from good wrong unknown missing thrown show ?thesis by blast
qed


section \<open>The two ticket stores\<close>

lemma update_first_same:
  "find_first P xs = Some k \<Longrightarrow> \<exists>ys zs. xs = ys @ k # zs \<and> (\<forall>y\<in>set ys. \<not> P y) \<and>
     update_first P f xs = ys @ f k # zs"
proof (induction xs)
  case Nil
  then show ?case by simp
next
  case (Cons x xs)
  show ?case
  proof (cases "P x")
    case True
    with Cons.prems have "x = k" by simp
    with True show ?thesis by (intro exI [of _ "[]"] exI [of _ xs]) simp
  next
    case False
    with Cons obtain ys zs where "xs = ys @ k # zs" "\<forall>y\<in>set ys. \<not> P y"
      "update_first P f xs = ys @ f k # zs" by auto
    with False show ?thesis by (intro exI [of _ "x # ys"] exI [of _ zs]) simp
  qed
qed

text \<open>
  \<open>POST /tickets\<close> of the conversation server on a stored id: no entry is added, the
  stored ticket is updated where it stands, its id, creation time and uploads are kept,
  and each of the three data fields changes only to a truthy value of the request; the
  file holds the tickets as they are written.
\<close>

lemma post_tickets_upsert:
  assumes "b_ticket_id b = Some i" and "truthy i"
    and "find_first (has_id i) (readTicketsData e file) = Some k0"
  shows "length (snd (post_tickets e b file)) = length file \<and>
         status (fst (post_tickets e b file)) = 200 \<and>
         r_ticket (fst (post_tickets e b file)) = Some (reread_ticket (assign_body b (now e) k0)) \<and>
         (write_ok e \<longrightarrow>
            (\<exists>ys zs. file = ys @ k0 # zs \<and> (\<forall>y\<in>set ys. \<not> has_id i y) \<and>
               snd (post_tickets e b file) =
                 map reread_ticket (ys @ assign_body b (now e) k0 # zs))) \<and>
         tid (assign_body b (now e) k0) = tid k0 \<and>
         createdAt (assign_body b (now e) k0) = createdAt k0 \<and>
         uploads (assign_body b (now e) k0) = uploads k0 \<and>
         (transcript (assign_body b (now e) k0) \<noteq> transcript k0 \<longrightarrow>
            truthy_opt (b_transcript b) \<and> transcript (assign_body b (now e) k0) = b_transcript b) \<and>
         (extracted_data (assign_body b (now e) k0) \<noteq> extracted_data k0 \<longrightarrow>
            truthy_opt (b_extracted_data b) \<and>
            extracted_data (assign_body b (now e) k0) = b_extracted_data b) \<and>
         (description (assign_body b (now e) k0) \<noteq> description k0 \<longrightarrow>
            truthy_opt (b_description b) \<and> description (assign_body b (now e) k0) = b_description b)"
proof -
  from assms(3) have rd: "read_ok e" and f: "find_first (has_id i) file = Some k0"
    by (auto simp: readTicketsData_def split: if_splits)
  have post: "post_tickets e b file =
      ((json_reply 200 True ''Ticket saved successfully'')
         \<lparr>r_ticket := Some (reread_ticket (assign_body b (now e) k0))\<rparr>,
       snd (writeTicketsData e (update_first (has_id i) (assign_body b (now e)) file) file))"
    using assms rd f by (simp add: post_tickets_def readTicketsData_def Let_def)
  have len: "length (snd (post_tickets e b file)) = length file"
    by (simp add: post writeTicketsData_def length_update_first)
  from update_first_same [OF f, of "assign_body b (now e)"]
  obtain ys zs where yz: "file = ys @ k0 # zs" "\<forall>y\<in>set ys. \<not> has_id i y"
    "update_first (has_id i) (assign_body b (now e)) file = ys @ assign_body b (now e) k0 # zs"
    by blast
  have "write_ok e \<longrightarrow>
      snd (post_tickets e b file) = map reread_ticket (ys @ assign_body b (now e) k0 # zs)"
    by (simp add: post writeTicketsData_def yz(3))
  with yz(1,2)
  have w: "write_ok e \<longrightarrow>
            (\<exists>ys zs. file = ys @ k0 # zs \<and> (\<forall>y\<in>set ys. \<not> has_id i y) \<and>
               snd (post_tickets e b file) =
                 map reread_ticket (ys @ assign_body b (now e) k0 # zs))"
    by blast
  have fields: "tid (assign_body b (now e) k0) = tid k0 \<and>
         createdAt (assign_body b (now e) k0) = createdAt k0 \<and>
         uploads (assign_body b (now e) k0) = uploads k0 \<and>
         (transcript (assign_body b (now e) k0) \<noteq> transcript k0 \<longrightarrow>
            truthy_opt (b_transcript b) \<and> transcript (assign_body b (now e) k0) = b_transcript b) \<and>
         (extracted_data (assign_body b (now e) k0) \<noteq> extracted_data k0 \<longrightarrow>
            truthy_opt (b_extracted_data b) \<and>
            extracted_data (assign_body b (now e) k0) = b_extracted_data b) \<and>
         (description (assign_body b (now e) k0) \<noteq> description k0 \<longrightarrow>
            truthy_opt (b_description b) \<and> description (assign_body b (now e) k0) = b_description b)"
    by (auto simp: assign_body_def)
  have st: "status (fst (post_tickets e b file)) = 200 \<and>
      r_ticket (fst (post_tickets e b file)) = Some (reread_ticket (assign_body b (now e) k0))"
    by (simp add: post json_reply_def)
  from len st w fields show ?thesis by blast
qed

text \<open>
  C9 at a concrete input. Posting \<open>T-1\<close> twice to the conversation server leaves one
  ticket and answers 200 both times; posting \<open>A-1\<close> twice to the SQLite backend is
  rejected the second time, with status 500 and not with the 409 of the claim.
\<close>

theorem sqlite_duplicate_is_not_409:
  "length (snd (post_tickets io_fine body_full (snd (post_tickets io_fine body_full [])))) = 1 \<and>
   status (fst (post_tickets io_fine body_full (snd (post_tickets io_fine body_full [])))) = 200 \<and>
   a_status (fst (post_ticket 2 ticket_A (snd (post_ticket 1 ticket_A empty_db)))) \<noteq> 409 \<and>
   a_status (fst (post_ticket 2 ticket_A (snd (post_ticket 1 ticket_A empty_db)))) = 500"
  by (simp add: post_tickets_def io_fine_def body_full_def readTicketsData_def
      writeTicketsData_def json_reply_def assign_body_def new_ticket_def has_id_def Let_def
      reread_ticket_def post_ticket_def insert_ticket_def ticket_values_def ticket_A_def empty_db_def
      ticket_exists_def api_json_def)



section \<open>Properties of the chat client\<close>

subsection \<open>The state block\<close>



lemma upto_last_Nil [simp]: "upto_last c [] = []"
  by (simp add: upto_last_def)







lemma phase_then_brace_Nil [simp]: "\<not> phase_then_brace []"
  by (simp add: phase_then_brace_def quoted_phase_def)








lemma brace_span_Nil [simp]: "brace_span [] = None"
  by (simp add: brace_span_def quoted_phase_def)








end
